theory Spec2Isabelle
  imports Complex_Main "HOL-Library.Log_Nat"
begin

section \<open>Numbers and property lookups of the source language\<close>

text \<open>
  The services are JavaScript. A finite JavaScript number is modelled by the real number it
  denotes; the one non-finite value the code can produce from the inputs considered here,
  \<open>NaN\<close>, is a constructor of its own. Comparisons with \<open>NaN\<close> are false, as in the language.
  The functions are first written with exact arithmetic, which is what the statements about
  order and equality need. Where a statement is about the amount that comes out, the pricing
  function is written a second time with every operation rounded as the language rounds it
  (\<open>fl\<close> below).
\<close>

datatype js_number = NaN | Num real

fun js_le :: "js_number \<Rightarrow> js_number \<Rightarrow> bool" where
  "js_le (Num a) (Num b) = (a \<le> b)"
| "js_le _ _ = False"

text \<open>\<open>Math.round\<close>: the nearest integer, a tie going to the larger one.\<close>

definition Math_round :: "real \<Rightarrow> int" where
  "Math_round x = \<lfloor>x + 1 / 2\<rfloor>"

text \<open>\<open>Math.ceil\<close>.\<close>

definition Math_ceil :: "real \<Rightarrow> int" where
  "Math_ceil x = \<lceil>x\<rceil>"

text \<open>
  \<open>parseFloat(x.toFixed(2))\<close>: \<open>toFixed\<close> prints the sign and then the magnitude with two
  decimals, taking the integer \<open>n\<close> for which \<open>n / 100\<close> is nearest to the magnitude and the
  larger \<open>n\<close> on a tie; \<open>parseFloat\<close> reads the printed decimal back.
\<close>

definition toFixed2 :: "real \<Rightarrow> real" where
  "toFixed2 x =
     (if x < 0 then - (of_int \<lfloor>(- x) * 100 + 1 / 2\<rfloor> / 100)
      else of_int \<lfloor>x * 100 + 1 / 2\<rfloor> / 100)"

text \<open>
  Reading a property of an object literal, \<open>obj[key]\<close>: the literal's own entry when it has
  one; otherwise the member of \<open>Object.prototype\<close> of that name (a function or an object,
  never a number); otherwise \<open>undefined\<close>.
\<close>

definition Object_prototype_keys :: "string list" where
  "Object_prototype_keys =
     [''constructor'', ''hasOwnProperty'', ''isPrototypeOf'', ''propertyIsEnumerable'',
      ''toLocaleString'', ''toString'', ''valueOf'', ''__proto__'',
      ''__defineGetter__'', ''__defineSetter__'', ''__lookupGetter__'', ''__lookupSetter__'']"

datatype 'a property = Own 'a | Inherited | Undefined

definition get_property :: "(string \<times> 'a) list \<Rightarrow> string \<Rightarrow> 'a property" where
  "get_property obj key =
     (case map_of obj key of
        Some v \<Rightarrow> Own v
      | None \<Rightarrow> if key \<in> set Object_prototype_keys then Inherited else Undefined)"


section \<open>Binary64 rounding\<close>

text \<open>
  A JavaScript number is an IEEE 754 binary64 value, and an arithmetic operation returns the
  exact result rounded to the nearest such value, a tie going to the value whose significand
  is even. \<open>fl\<close> is that rounding, on the reals. \<open>binade x\<close> is the exponent \<open>e\<close> with
  \<open>2 ^ e \<le> \<bar>x\<bar> < 2 ^ (e + 1)\<close>; the binary64 values around \<open>x\<close> are the multiples of
  \<open>2 ^ (e - 52)\<close>, and the multiples of \<open>2 ^ (- 1074)\<close> below \<open>2 ^ (- 1022)\<close>. A result of
  magnitude \<open>2 ^ 1024\<close> or more, which the language replaces by \<open>Infinity\<close>, is outside the
  model: the statements about binary64 amounts bound their inputs.
\<close>

definition binade :: "real \<Rightarrow> int" where
  "binade x =
     (if 1 \<le> \<bar>x\<bar> then bitlen \<lfloor>\<bar>x\<bar>\<rfloor> - 1 else - bitlen (\<lceil>1 / \<bar>x\<bar>\<rceil> - 1))"

definition round_ties_even :: "real \<Rightarrow> int" where
  "round_ties_even x =
     (let n = \<lfloor>x\<rfloor>; r = x - of_int n
      in if r < 1 / 2 then n else if 1 / 2 < r then n + 1 else if even n then n else n + 1)"

definition fl :: "real \<Rightarrow> real" where
  "fl x =
     (if x = 0 then 0
      else (let u = 2 powi (max (binade x) (- 1022) - 52)
            in of_int (round_ties_even (x / u)) * u))"

text \<open>
  A binary64 number of magnitude at most \<open>10 ^ 100\<close>. With arguments and settings in this
  range no step of the pricing function comes near \<open>2 ^ 1024\<close>.
\<close>

definition binary64_in_range :: "real \<Rightarrow> bool" where
  "binary64_in_range x \<longleftrightarrow> fl x = x \<and> \<bar>x\<bar> \<le> 10 ^ 100"


section \<open>Pricing: \<open>calculateQuoteAmount\<close> (services/quoteCalculator.js)\<close>

text \<open>
  \<open>process.env\<close>, as far as the function reads it: each field is what \<open>parseFloat\<close> makes of
  the variable, \<open>None\<close> when the variable is unset or does not start with a number.
\<close>

record process_env =
  BASE_RATE_PER_MILE :: "real option"
  MINIMUM_QUOTE :: "real option"

definition default_env :: process_env where
  "default_env = \<lparr>BASE_RATE_PER_MILE = None, MINIMUM_QUOTE = None\<rparr>"

text \<open>\<open>parseFloat(v) || d\<close>: the default replaces \<open>NaN\<close> and also zero, both being falsy.\<close>

definition parseFloat_or :: "real option \<Rightarrow> real \<Rightarrow> real" where
  "parseFloat_or v d = (case v of None \<Rightarrow> d | Some x \<Rightarrow> if x = 0 then d else x)"

definition baseRatePerMile :: "process_env \<Rightarrow> real" where
  "baseRatePerMile env = parseFloat_or (BASE_RATE_PER_MILE env) 2.00"

definition minimumQuote :: "process_env \<Rightarrow> real" where
  "minimumQuote env = parseFloat_or (MINIMUM_QUOTE env) 100.00"

definition equipmentMultipliers :: "(string \<times> real) list" where
  "equipmentMultipliers =
     [(''dry_van'', 1.0),
      (''reefer'', 1.2),
      (''flatbed'', 1.15),
      (''step_deck'', 1.20),
      (''hotshot'', 0.85),
      (''straight_truck'', 0.95)]"

definition WEIGHT_THRESHOLD :: real where
  "WEIGHT_THRESHOLD = 10000"

definition WEIGHT_FACTOR_RATE :: real where
  "WEIGHT_FACTOR_RATE = 0.10"

text \<open>
  \<open>equipmentMultipliers[equipmentType] || 1.0\<close>. An inherited member is truthy, so it is kept,
  and the multiplication that follows turns it into \<open>NaN\<close>.
\<close>

definition multiplier :: "string \<Rightarrow> js_number" where
  "multiplier equipmentType =
     (case get_property equipmentMultipliers equipmentType of
        Own m \<Rightarrow> Num (if m = 0 then 1.0 else m)
      | Undefined \<Rightarrow> Num 1.0
      | Inherited \<Rightarrow> NaN)"

text \<open>The default parameter \<open>totalWeight = 0\<close>: \<open>None\<close> is the omitted argument.\<close>

definition totalWeight_or_default :: "real option \<Rightarrow> real" where
  "totalWeight_or_default arg = (case arg of None \<Rightarrow> 0 | Some w \<Rightarrow> w)"

text \<open>What the conditional on the weight adds to the running amount.\<close>

definition weightFactor :: "real \<Rightarrow> real" where
  "weightFactor totalWeight =
     (if totalWeight > WEIGHT_THRESHOLD
      then of_int (Math_ceil ((totalWeight - WEIGHT_THRESHOLD) / 100)) * WEIGHT_FACTOR_RATE
      else 0)"

text \<open>The running amount when the function reaches \<open>Math.max\<close>.\<close>

definition quoteBeforeMinimum :: "process_env \<Rightarrow> real \<Rightarrow> string \<Rightarrow> real option \<Rightarrow> js_number" where
  "quoteBeforeMinimum env distanceMiles equipmentType weightArg =
     (let totalWeight = totalWeight_or_default weightArg;
          quoteAmount = distanceMiles * baseRatePerMile env
      in case multiplier equipmentType of
           NaN \<Rightarrow> NaN
         | Num m \<Rightarrow> Num (quoteAmount * m + weightFactor totalWeight))"

definition calculateQuoteAmount :: "process_env \<Rightarrow> real \<Rightarrow> string \<Rightarrow> real option \<Rightarrow> js_number" where
  "calculateQuoteAmount env distanceMiles equipmentType weightArg =
     (case quoteBeforeMinimum env distanceMiles equipmentType weightArg of
        NaN \<Rightarrow> NaN
      | Num quoteAmount \<Rightarrow>
          Num (of_int (Math_round (max quoteAmount (minimumQuote env) * 100)) / 100))"


section \<open>Pricing in binary64\<close>

text \<open>
  \<open>calculateQuoteAmount\<close> once more, with every operation rounded. The arguments are binary64
  numbers. A decimal constant of the source (\<open>1.15\<close>, \<open>0.10\<close>) and a parsed environment
  variable stand for the nearest binary64 number; 10000 and 100 are binary64 numbers as they
  are. \<open>Math.ceil\<close>, \<open>Math.round\<close> and \<open>Math.max\<close> are exact.
\<close>

text \<open>\<open>Math.ceil((totalWeight - WEIGHT_THRESHOLD) / 100) * WEIGHT_FACTOR_RATE\<close>.\<close>

definition weightFactor_binary64 :: "real \<Rightarrow> real" where
  "weightFactor_binary64 totalWeight =
     (let weightOverThreshold = fl (totalWeight - WEIGHT_THRESHOLD)
      in fl (of_int (Math_ceil (fl (weightOverThreshold / 100))) * fl WEIGHT_FACTOR_RATE))"

definition quoteBeforeMinimum_binary64 ::
    "process_env \<Rightarrow> real \<Rightarrow> string \<Rightarrow> real option \<Rightarrow> js_number" where
  "quoteBeforeMinimum_binary64 env distanceMiles equipmentType weightArg =
     (let totalWeight = totalWeight_or_default weightArg;
          quoteAmount = fl (distanceMiles * fl (baseRatePerMile env))
      in case multiplier equipmentType of
           NaN \<Rightarrow> NaN
         | Num m \<Rightarrow>
             (let quoteAmount = fl (quoteAmount * fl m)
              in Num (if totalWeight > WEIGHT_THRESHOLD
                      then fl (quoteAmount + weightFactor_binary64 totalWeight)
                      else quoteAmount)))"

text \<open>\<open>Math.round(quoteAmount * 100) / 100\<close>.\<close>

definition round_to_cents_binary64 :: "real \<Rightarrow> real" where
  "round_to_cents_binary64 quoteAmount = fl (of_int (Math_round (fl (quoteAmount * 100))) / 100)"

definition calculateQuoteAmount_binary64 ::
    "process_env \<Rightarrow> real \<Rightarrow> string \<Rightarrow> real option \<Rightarrow> js_number" where
  "calculateQuoteAmount_binary64 env distanceMiles equipmentType weightArg =
     (case quoteBeforeMinimum_binary64 env distanceMiles equipmentType weightArg of
        NaN \<Rightarrow> NaN
      | Num quoteAmount \<Rightarrow>
          Num (round_to_cents_binary64 (max quoteAmount (fl (minimumQuote env)))))"


section \<open>Requests to the outside\<close>

text \<open>
  An error of the HTTP client, with the three fields the services read: \<open>error.response\<close>
  (status and status text, present when the server answered with an error status),
  \<open>error.code\<close> (\<open>ECONNABORTED\<close> for a timeout) and \<open>error.message\<close>.
  A request either rejects with such an error or resolves with \<open>response.data\<close>.
\<close>

datatype axios_error = AxiosError "(nat \<times> string) option" "string option" string

datatype 'a axios_result = Rejected axios_error | Resolved 'a

fun starts_with :: "string \<Rightarrow> string \<Rightarrow> bool" where
  "starts_with _ [] = True"
| "starts_with [] (p # ps) = False"
| "starts_with (c # cs) (p # ps) = (c = p \<and> starts_with cs ps)"

text \<open>\<open>text.includes(part)\<close>.\<close>

fun includes_text :: "string \<Rightarrow> string \<Rightarrow> bool" where
  "includes_text [] part = (part = [])"
| "includes_text (c # cs) part = (starts_with (c # cs) part \<or> includes_text cs part)"


section \<open>Location resolution: \<open>geocodeLocation\<close> (services/geocoding.js)\<close>

text \<open>
  The location object. \<open>None\<close> is a field that is absent or \<open>null\<close>; a test such as
  \<open>if (postalCode)\<close> holds for a present string that is not empty. Where a local name of the
  source is also the name of a field here, the local name carries a prime.
\<close>

record location =
  city :: "string option"
  postal_code :: "string option"
  state_province :: "string option"
  country :: "string option"

definition truthy :: "string option \<Rightarrow> bool" where
  "truthy v = (case v of None \<Rightarrow> False | Some s \<Rightarrow> s \<noteq> [])"

text \<open>\<open>!v\<close>.\<close>

definition falsy :: "string option \<Rightarrow> bool" where
  "falsy v = (case v of None \<Rightarrow> True | Some s \<Rightarrow> s = [])"

definition countryNames :: "(string \<times> string) list" where
  "countryNames = [(''US'', ''United States''), (''CA'', ''Canada''), (''MX'', ''Mexico'')]"

text \<open>\<open>if (v) parts.push(v)\<close>.\<close>

definition push_if :: "string option \<Rightarrow> string list \<Rightarrow> string list" where
  "push_if v parts = (case v of None \<Rightarrow> parts | Some s \<Rightarrow> if s = [] then parts else parts @ [s])"

text \<open>\<open>parts.join(', ')\<close>.\<close>

fun join :: "string list \<Rightarrow> string" where
  "join [] = []"
| "join [p] = p"
| "join (p # q # ps) = p @ '', '' @ join (q # ps)"

text \<open>
  The text sent to the geocoding provider. \<open>countryNames[country] || country\<close> is read on the
  table's own entries: for a country code that names a member of \<open>Object.prototype\<close> the
  source joins the printed form of that member, where this definition joins the code itself.
  The text only selects the provider's answer, and the provider is arbitrary below.
\<close>

definition buildGeocodingQuery ::
    "string option \<Rightarrow> string option \<Rightarrow> string option \<Rightarrow> string option \<Rightarrow> string" where
  "buildGeocodingQuery city' stateProvince postalCode country' =
     (let parts = push_if postalCode [];
          parts = push_if city' parts;
          parts = push_if stateProvince parts;
          parts = (case country' of
                     None \<Rightarrow> parts
                   | Some c \<Rightarrow>
                       if c = [] then parts
                       else parts @ [case map_of countryNames c of Some name \<Rightarrow> name | None \<Rightarrow> c])
      in join parts)"

definition validateNorthAmericaBounds :: "js_number \<Rightarrow> js_number \<Rightarrow> bool" where
  "validateNorthAmericaBounds lat lon =
     (let minLat = Num 7.0; maxLat = Num 83.0; minLon = Num (- 180.0); maxLon = Num (- 50.0)
      in js_le minLat lat \<and> js_le lat maxLat \<and> js_le minLon lon \<and> js_le lon maxLon)"

text \<open>
  One entry of the provider's answer: \<open>parseFloat(result.lat)\<close>, \<open>parseFloat(result.lon)\<close> and
  \<open>result.display_name\<close>. \<open>response.data\<close> is a list of entries, or \<open>None\<close> when it is missing.
\<close>

datatype nominatim_result = NominatimResult js_number js_number string

type_synonym nominatim_data = "nominatim_result list option"

record geocoded =
  latitude :: js_number
  longitude :: js_number
  accuracy :: string
  display_name :: string

text \<open>
  What the body of the \<open>try\<close> block can throw: the client's error of the last request, the
  error for an empty answer (with the query in its message), and the error for coordinates
  outside the bounds (with the coordinates in its message).
\<close>

datatype thrown =
    RequestFailed axios_error
  | CouldNotGeocode string
  | OutsideNorthAmerica js_number js_number

fun error_response :: "thrown \<Rightarrow> (nat \<times> string) option" where
  "error_response (RequestFailed (AxiosError response code message)) = response"
| "error_response _ = None"

text \<open>\<open>error.message\<close>; for the bounds error, the message up to the coordinates.\<close>

fun error_message :: "thrown \<Rightarrow> string" where
  "error_message (RequestFailed (AxiosError response code message)) = message"
| "error_message (CouldNotGeocode query) = ''Could not geocode location: '' @ query"
| "error_message (OutsideNorthAmerica lat lon) =
     ''Location is outside North America bounds. Only US, Canada, and Mexico are supported. Coordinates: ''"

text \<open>
  What \<open>geocodeLocation\<close> throws: the error of the first check, and the three outcomes of
  the \<open>catch\<close> block (a new error for a server's error status, the caught error thrown again
  unchanged, a new error wrapping the caught message).
\<close>

datatype geocode_error =
    CityAndCountryRequired
  | GeocodingApiError nat string
  | Rethrown thrown
  | GeocodingFailed string

text \<open>
  The requests of the \<open>try\<close> block: with a postal code, the full query and, when that
  request rejects, the query without the postal code; without one, the query alone.
\<close>

definition geocode_request ::
    "(string \<Rightarrow> nominatim_data axios_result) \<Rightarrow> location \<Rightarrow> string \<Rightarrow> nominatim_data axios_result" where
  "geocode_request axios_get location query =
     (if truthy (postal_code location) then
        (case axios_get query of
           Resolved response \<Rightarrow> Resolved response
         | Rejected error \<Rightarrow>
             (let fallbackQuery =
                    buildGeocodingQuery (city location) (state_province location) None (country location)
              in axios_get fallbackQuery))
      else axios_get query)"

definition geocode_try ::
    "(string \<Rightarrow> nominatim_data axios_result) \<Rightarrow> location \<Rightarrow> string \<Rightarrow> thrown + geocoded" where
  "geocode_try axios_get location query =
     (case geocode_request axios_get location query of
        Rejected error \<Rightarrow> Inl (RequestFailed error)
      | Resolved data \<Rightarrow>
          (case data of
             None \<Rightarrow> Inl (CouldNotGeocode query)
           | Some [] \<Rightarrow> Inl (CouldNotGeocode query)
           | Some (NominatimResult latitude' longitude' name # _) \<Rightarrow>
               if \<not> validateNorthAmericaBounds latitude' longitude'
               then Inl (OutsideNorthAmerica latitude' longitude')
               else
                 (let accuracy' =
                        (if truthy (postal_code location) then ''postal_code''
                         else if truthy (state_province location) then ''city_state''
                         else ''city_only'')
                  in Inr \<lparr>latitude = latitude', longitude = longitude', accuracy = accuracy',
                          display_name = name\<rparr>)))"

definition geocode_catch :: "thrown \<Rightarrow> geocode_error" where
  "geocode_catch error =
     (case error_response error of
        Some (status, statusText) \<Rightarrow> GeocodingApiError status statusText
      | None \<Rightarrow>
          if includes_text (error_message error) ''North America'' then Rethrown error
          else GeocodingFailed (error_message error))"

definition geocodeLocation ::
    "(string \<Rightarrow> nominatim_data axios_result) \<Rightarrow> location \<Rightarrow> geocode_error + geocoded" where
  "geocodeLocation axios_get location =
     (if falsy (city location) \<or> falsy (country location) then Inl CityAndCountryRequired
      else
        (let query = buildGeocodingQuery (city location) (state_province location)
                       (postal_code location) (country location)
         in case geocode_try axios_get location query of
              Inl error \<Rightarrow> Inl (geocode_catch error)
            | Inr point \<Rightarrow> Inr point))"


section \<open>Distance: \<open>calculateDistance\<close> (services/quoteCalculator.js)\<close>

text \<open>
  The file holds two revisions of the module; the later one, with the driving route and the
  great-circle fallback, is the one modelled. The object returned, \<open>{ distance_km,
  distance_miles }\<close>, is the list of its properties in the order written.
\<close>

type_synonym distance_object = "(string \<times> real) list"

datatype distance_error =
    DrivingRequestFailed axios_error
  | NoRouteFound
  | FailedToCalculateDistance string

text \<open>
  The routing request is determined by the four coordinates placed in its URL. Its answer is
  the list of the lengths in metres of \<open>response.data.routes\<close>, or \<open>None\<close> when \<open>data\<close> or
  \<open>routes\<close> is missing.
\<close>

definition calculateDrivingDistance ::
    "(real \<times> real \<times> real \<times> real \<Rightarrow> real list option axios_result) \<Rightarrow>
     real \<Rightarrow> real \<Rightarrow> real \<Rightarrow> real \<Rightarrow> distance_error + distance_object" where
  "calculateDrivingDistance axios_get originLat originLon destLat destLon =
     (case axios_get (originLon, originLat, destLon, destLat) of
        Rejected error \<Rightarrow> Inl (DrivingRequestFailed error)
      | Resolved routes \<Rightarrow>
          (case routes of
             None \<Rightarrow> Inl NoRouteFound
           | Some [] \<Rightarrow> Inl NoRouteFound
           | Some (distanceMeters # _) \<Rightarrow>
               (let distanceKm = distanceMeters / 1000.0;
                    distanceMiles = distanceKm * 0.621371
                in Inr [(''distance_km'', toFixed2 distanceKm),
                        (''distance_miles'', toFixed2 distanceMiles)])))"

text \<open>
  The database query of the fallback. The database either rejects the query, with a message,
  or returns rows; a row is given by the value of \<open>ST_Distance\<close> in metres for the two points,
  from which the \<open>SELECT\<close> computes its two columns: \<open>ST_Distance(...) / 1000.0\<close> and
  \<open>(ST_Distance(...) / 1000.0) * 0.621371\<close>.
\<close>

datatype query_result = QueryFailed string | Rows "real list"

definition calculateGreatCircleDistance ::
    "(real \<times> real \<times> real \<times> real \<Rightarrow> query_result) \<Rightarrow>
     real \<Rightarrow> real \<Rightarrow> real \<Rightarrow> real \<Rightarrow> distance_error + distance_object" where
  "calculateGreatCircleDistance query originLat originLon destLat destLon =
     (case query (originLon, originLat, destLon, destLat) of
        QueryFailed message \<Rightarrow> Inl (FailedToCalculateDistance message)
      | Rows [] \<Rightarrow> Inl (FailedToCalculateDistance ''Distance calculation failed'')
      | Rows (st_distance # _) \<Rightarrow>
          Inr [(''distance_km'', st_distance / 1000.0),
               (''distance_miles'', (st_distance / 1000.0) * 0.621371)])"

definition calculateDistance ::
    "(real \<times> real \<times> real \<times> real \<Rightarrow> real list option axios_result) \<Rightarrow>
     (real \<times> real \<times> real \<times> real \<Rightarrow> query_result) \<Rightarrow>
     real \<Rightarrow> real \<Rightarrow> real \<Rightarrow> real \<Rightarrow> distance_error + distance_object" where
  "calculateDistance axios_get query originLat originLon destLat destLon =
     (case calculateDrivingDistance axios_get originLat originLon destLat destLon of
        Inr drivingDistance \<Rightarrow> Inr drivingDistance
      | Inl error \<Rightarrow> calculateGreatCircleDistance query originLat originLon destLat destLon)"


section \<open>Test doubles for the providers\<close>

text \<open>
  Concrete locations and providers on which the functions are evaluated below.
  Toronto with a postal code, and Paris, Texas without one.
\<close>

definition toronto :: location where
  "toronto = \<lparr>city = Some ''Toronto'', postal_code = Some ''M5H 2N2'',
               state_province = Some ''ON'', country = Some ''CA''\<rparr>"

definition paris_texas :: location where
  "paris_texas = \<lparr>city = Some ''Paris'', postal_code = None,
                   state_province = Some ''TX'', country = Some ''US''\<rparr>"

text \<open>A geocoder whose request with the postal code fails and which finds the city.\<close>

definition geocoder_without_postal_codes :: "string \<Rightarrow> nominatim_data axios_result" where
  "geocoder_without_postal_codes q =
     (if q = ''Toronto, ON, Canada''
      then Resolved (Some [NominatimResult (Num 43.65) (Num (- 79.38)) ''Toronto, Ontario, Canada''])
      else Rejected (AxiosError None None ''Network Error''))"

text \<open>A geocoder that answers every query with Paris, France.\<close>

definition geocoder_in_france :: "string \<Rightarrow> nominatim_data axios_result" where
  "geocoder_in_france q = Resolved (Some [NominatimResult (Num 48.85) (Num 2.35) ''Paris, France''])"

text \<open>A geocoder that answers every query with downtown Toronto.\<close>

definition geocoder_in_toronto :: "string \<Rightarrow> nominatim_data axios_result" where
  "geocoder_in_toronto q =
     Resolved (Some [NominatimResult (Num 43.65) (Num (- 79.38)) ''Toronto, Ontario, Canada''])"

text \<open>A routing provider that times out, and a routing provider that finds one route.\<close>

definition routing_timeout :: "real \<times> real \<times> real \<times> real \<Rightarrow> real list option axios_result" where
  "routing_timeout coordinates =
     Rejected (AxiosError None (Some ''ECONNABORTED'') ''timeout of 5000ms exceeded'')"

definition routing_one_km :: "real \<times> real \<times> real \<times> real \<Rightarrow> real list option axios_result" where
  "routing_one_km coordinates = Resolved (Some [1000])"

text \<open>Databases whose \<open>ST_Distance\<close> is 3358 km, and 0.\<close>

definition database_3358_km :: "real \<times> real \<times> real \<times> real \<Rightarrow> query_result" where
  "database_3358_km params = Rows [3358000]"

definition database_zero :: "real \<times> real \<times> real \<times> real \<Rightarrow> query_result" where
  "database_zero params = Rows [0]"


section \<open>Properties of binary64 rounding\<close>

text \<open>
  \<open>binade\<close> is the exponent it is meant to be; \<open>fl\<close> moves a number by at most half the
  spacing, hence by at most the fraction \<open>2 ^ (- 53)\<close> of its magnitude (plus one, to cover the
  numbers below \<open>2 ^ (- 1022)\<close>); and an integer below \<open>2 ^ 53\<close> in magnitude is a binary64
  number.
\<close>

lemma binade_large:
  assumes "1 \<le> \<bar>x\<bar>"
  shows "2 powi binade x \<le> \<bar>x\<bar>" and "\<bar>x\<bar> < 2 powi (binade x + 1)"
proof -
  define n where "n = \<lfloor>\<bar>x\<bar>\<rfloor>"
  from assms have n: "0 < n" unfolding n_def by linarith
  then have b: "1 \<le> bitlen n" by (auto simp: bitlen_alt_def)
  from bitlen_bounds [OF n] have lo: "2 ^ nat (bitlen n - 1) \<le> n" and hi: "n < 2 ^ nat (bitlen n)"
    by simp_all
  have e: "binade x = bitlen n - 1"
    using assms by (simp add: binade_def n_def)
  have "(2::real) powi (bitlen n - 1) = 2 ^ nat (bitlen n - 1)"
    using b by (simp add: power_int_def)
  also have "\<dots> = of_int (2 ^ nat (bitlen n - 1))" by simp
  also have "\<dots> \<le> of_int n" using lo by (simp only: of_int_le_iff)
  also have "\<dots> \<le> \<bar>x\<bar>" unfolding n_def by linarith
  finally show "2 powi binade x \<le> \<bar>x\<bar>" by (simp add: e)
  from hi have "n + 1 \<le> 2 ^ nat (bitlen n)" by simp
  then have "(of_int (n + 1) :: real) \<le> of_int (2 ^ nat (bitlen n))"
    by (simp only: of_int_le_iff)
  moreover have "\<bar>x\<bar> < of_int (n + 1)" unfolding n_def by linarith
  ultimately have "\<bar>x\<bar> < 2 ^ nat (bitlen n)" by simp
  also have "\<dots> = (2::real) powi (bitlen n)"
    using b by (simp add: power_int_def)
  finally show "\<bar>x\<bar> < 2 powi (binade x + 1)" by (simp add: e)
qed

lemma binade_small:
  assumes "x \<noteq> 0" and "\<bar>x\<bar> < 1"
  shows "2 powi binade x \<le> \<bar>x\<bar>" and "\<bar>x\<bar> < 2 powi (binade x + 1)"
proof -
  define y where "y = 1 / \<bar>x\<bar>"
  define m where "m = \<lceil>y\<rceil> - 1"
  from assms have y: "1 < y" "0 < y" unfolding y_def by simp_all
  then have m: "0 < m" unfolding m_def by linarith
  then have b: "1 \<le> bitlen m" by (auto simp: bitlen_alt_def)
  from bitlen_bounds [OF m] have lo: "2 ^ nat (bitlen m - 1) \<le> m" and hi: "m < 2 ^ nat (bitlen m)"
    by simp_all
  have e: "binade x = - bitlen m"
    using assms by (simp add: binade_def m_def y_def)
  have x: "\<bar>x\<bar> = 1 / y" unfolding y_def by simp
  from hi have "m + 1 \<le> 2 ^ nat (bitlen m)" by simp
  then have "(of_int (m + 1) :: real) \<le> of_int (2 ^ nat (bitlen m))"
    by (simp only: of_int_le_iff)
  moreover have "y \<le> of_int (m + 1)" unfolding m_def by linarith
  ultimately have "y \<le> 2 ^ nat (bitlen m)" by simp
  then have "1 / 2 ^ nat (bitlen m) \<le> 1 / y"
    using y by (simp add: frac_le)
  moreover have "(2::real) powi (- bitlen m) = 1 / 2 ^ nat (bitlen m)"
    using b by (simp add: power_int_def field_simps)
  ultimately show "2 powi binade x \<le> \<bar>x\<bar>" by (simp add: e x)
  have "(2::real) ^ nat (bitlen m - 1) \<le> of_int m"
  proof -
    from lo have "(of_int (2 ^ nat (bitlen m - 1)) :: real) \<le> of_int m"
      by (simp only: of_int_le_iff)
    then show ?thesis by (simp only: of_int_power of_int_numeral)
  qed
  moreover have "of_int m < y" unfolding m_def by linarith
  ultimately have "2 ^ nat (bitlen m - 1) < y" by linarith
  then have "1 / y < 1 / 2 ^ nat (bitlen m - 1)"
    by (simp add: frac_less2)
  moreover have "(2::real) powi (- bitlen m + 1) = 1 / 2 ^ nat (bitlen m - 1)"
  proof -
    have "- bitlen m + 1 = - int (nat (bitlen m - 1))" using b by simp
    then show ?thesis by (simp only: power_int_minus power_int_of_nat) (simp add: field_simps)
  qed
  ultimately show "\<bar>x\<bar> < 2 powi (binade x + 1)" by (simp add: e x)
qed

lemma binade_bounds:
  assumes "x \<noteq> 0"
  shows "2 powi binade x \<le> \<bar>x\<bar>" and "\<bar>x\<bar> < 2 powi (binade x + 1)"
  using assms binade_large [of x] binade_small [of x] by (cases "1 \<le> \<bar>x\<bar>"; simp)+

lemma round_ties_even_error: "\<bar>of_int (round_ties_even x) - x\<bar> \<le> 1 / 2"
  unfolding round_ties_even_def Let_def by (auto; linarith)

lemma round_ties_even_of_int: "round_ties_even (of_int z) = z"
  by (simp add: round_ties_even_def)


lemma fl_error_ulp:
  assumes "x \<noteq> 0"
  shows "\<bar>fl x - x\<bar> \<le> 2 powi (max (binade x) (- 1022) - 52) / 2"
proof -
  define u :: real where "u = 2 powi (max (binade x) (- 1022) - 52)"
  have u: "0 < u" unfolding u_def by simp
  have "fl x - x = (of_int (round_ties_even (x / u)) - x / u) * u"
    using assms u by (simp add: fl_def u_def Let_def algebra_simps)
  then have "\<bar>fl x - x\<bar> = \<bar>of_int (round_ties_even (x / u)) - x / u\<bar> * u"
    using u by (simp add: abs_mult)
  also have "\<dots> \<le> (1 / 2) * u"
    using u round_ties_even_error [of "x / u"] by (intro mult_right_mono) simp_all
  finally show ?thesis by (simp add: u_def)
qed

lemma fl_error: "\<bar>fl x - x\<bar> \<le> (\<bar>x\<bar> + 1) / 2 ^ 53"
proof (cases "x = 0")
  case True
  then show ?thesis by (simp add: fl_def)
next
  case False
  show ?thesis
  proof (cases "- 1022 \<le> binade x")
    case True
    then have "2 powi (max (binade x) (- 1022) - 52) = 2 powi binade x / (2 ^ 52 :: real)"
      by (simp add: max_def power_int_diff)
    also have "\<dots> \<le> \<bar>x\<bar> / 2 ^ 52"
      using binade_bounds(1) [OF False] by (simp add: divide_right_mono)
    finally have "2 powi (max (binade x) (- 1022) - 52) / 2 \<le> \<bar>x\<bar> / 2 ^ 53"
      by simp
    with fl_error_ulp [OF False] have "\<bar>fl x - x\<bar> \<le> \<bar>x\<bar> / 2 ^ 53" by linarith
    also have "\<dots> \<le> (\<bar>x\<bar> + 1) / 2 ^ 53" by (simp add: divide_right_mono)
    finally show ?thesis .
  next
    case False
    then have "(2::real) powi (max (binade x) (- 1022) - 52) = 2 powi (- 1074)"
      by (simp add: max_def)
    also have "\<dots> \<le> 2 powi (- 52)"
      by (intro power_int_increasing) simp_all
    finally have "2 powi (max (binade x) (- 1022) - 52) / 2 \<le> (1 / 2 ^ 53 :: real)"
      by (simp add: power_int_minus field_simps)
    with fl_error_ulp [OF \<open>x \<noteq> 0\<close>] have "\<bar>fl x - x\<bar> \<le> 1 / 2 ^ 53" by linarith
    also have "\<dots> \<le> (\<bar>x\<bar> + 1) / 2 ^ 53" by (simp add: divide_right_mono)
    finally show ?thesis .
  qed
qed

lemma fl_of_int:
  assumes "\<bar>j\<bar> < 2 ^ 53"
  shows "fl (of_int j) = of_int j"
proof (cases "j = 0")
  case True
  then show ?thesis by (simp add: fl_def)
next
  case False
  define x :: real where "x = of_int j"
  define e where "e = binade x"
  from False have x0: "x \<noteq> 0" and x1: "1 \<le> \<bar>x\<bar>" unfolding x_def by simp_all
  from binade_bounds [OF x0] have lo: "2 powi e \<le> \<bar>x\<bar>" and hi: "\<bar>x\<bar> < 2 powi (e + 1)"
    unfolding e_def by simp_all
  from assms have "\<bar>x\<bar> < 2 ^ 53" unfolding x_def
    by (metis of_int_abs of_int_less_iff of_int_numeral of_int_power)
  with lo have "(2::real) powi e < 2 powi 53" by simp
  then have e_hi: "e < 53" by (rule power_int_le_imp_less_exp [rotated]) simp_all
  have e_lo: "0 \<le> e"
  proof (rule ccontr)
    assume "\<not> 0 \<le> e"
    then have "(2::real) powi (e + 1) \<le> 2 powi 0"
      by (intro power_int_increasing) simp_all
    with x1 hi show False by simp
  qed
  define s where "s = nat (52 - e)"
  have u: "(2::real) powi (max e (- 1022) - 52) = 1 / 2 ^ s"
  proof -
    have "max e (- 1022) - 52 = - int s" using e_lo e_hi by (simp add: s_def)
    then show ?thesis by (simp only: power_int_minus power_int_of_nat) (simp add: field_simps)
  qed
  have "x / (1 / 2 ^ s) = of_int (j * 2 ^ s)" by (simp add: x_def)
  then have "round_ties_even (x / (1 / 2 ^ s)) = j * 2 ^ s"
    by (simp only: round_ties_even_of_int)
  with x0 u show ?thesis
    by (simp add: fl_def e_def [symmetric] Let_def x_def [symmetric])
qed


lemma fl_default_constants: "fl 2 = 2" "fl 100 = 100" "fl 10000 = 10000"
  using fl_of_int [of 2] fl_of_int [of 100] fl_of_int [of 10000] by simp_all

lemma p53: "(2::real) ^ 53 = 9007199254740992"
  by simp

lemma product_error:
  fixes D m a mt :: real
  assumes m: "17 / 20 \<le> m" "m \<le> 6 / 5"
    and a: "\<bar>a - D\<bar> \<le> (\<bar>D\<bar> + 1) / 2 ^ 53"
    and mt: "\<bar>mt - m\<bar> \<le> (m + 1) / 2 ^ 53"
  shows "\<bar>a * mt - D * m\<bar> \<le> (7 / 2 * \<bar>D\<bar> + 2) / 2 ^ 53" and "\<bar>a * mt\<bar> \<le> 3 / 2 * \<bar>D\<bar> + 1"
proof -
  have mt_bounds: "0 \<le> mt" "mt \<le> 13 / 10"
    using m mt unfolding p53 by argo+
  have "a * mt - D * m = (a - D) * mt + D * (mt - m)"
    by (simp add: algebra_simps)
  then have "\<bar>a * mt - D * m\<bar> \<le> \<bar>a - D\<bar> * \<bar>mt\<bar> + \<bar>D\<bar> * \<bar>mt - m\<bar>"
    by (metis abs_mult abs_triangle_ineq)
  also have "\<bar>a - D\<bar> * \<bar>mt\<bar> \<le> ((\<bar>D\<bar> + 1) / 2 ^ 53) * (13 / 10)"
    using a mt_bounds by (intro mult_mono) simp_all
  also have "\<bar>D\<bar> * \<bar>mt - m\<bar> \<le> \<bar>D\<bar> * ((11 / 5) / 2 ^ 53)"
  proof -
    from mt m have "\<bar>mt - m\<bar> \<le> (11 / 5) / 2 ^ 53" unfolding p53 by argo
    then show ?thesis by (intro mult_mono) simp_all
  qed
  finally have e: "\<bar>a * mt - D * m\<bar>
      \<le> ((\<bar>D\<bar> + 1) / 2 ^ 53) * (13 / 10) + \<bar>D\<bar> * ((11 / 5) / 2 ^ 53)"
    by simp
  then show "\<bar>a * mt - D * m\<bar> \<le> (7 / 2 * \<bar>D\<bar> + 2) / 2 ^ 53" unfolding p53 by argo
  have "\<bar>D * m\<bar> \<le> \<bar>D\<bar> * (6 / 5)"
    unfolding abs_mult using m by (intro mult_left_mono) simp_all
  with e show "\<bar>a * mt\<bar> \<le> 3 / 2 * \<bar>D\<bar> + 1" unfolding p53 by argo
qed


lemma cents_error:
  fixes D m M0 :: real
  assumes D: "0 \<le> D" and m: "17 / 20 \<le> m" "m \<le> 6 / 5"
  defines "x \<equiv> max (D * m) M0"
  defines "b \<equiv> fl (fl D * fl m)"
  defines "k \<equiv> Math_round (fl (max b M0 * 100))"
  shows "\<bar>of_int k / 100 - x\<bar> \<le> 0.005 + (x + 1) / 2 ^ 50"
proof -
  define q where "q = D * m"
  define p where "p = fl D * fl m"
  define c where "c = max b M0"
  define g where "g = fl (c * 100)"
  have a: "\<bar>fl D - D\<bar> \<le> (\<bar>D\<bar> + 1) / 2 ^ 53"
    by (rule fl_error)
  have mt: "\<bar>fl m - m\<bar> \<le> (m + 1) / 2 ^ 53"
    using fl_error [of m] m by simp
  from product_error [OF m a mt]
  have p1: "\<bar>p - q\<bar> \<le> (7 / 2 * \<bar>D\<bar> + 2) / 2 ^ 53" and p2: "\<bar>p\<bar> \<le> 3 / 2 * \<bar>D\<bar> + 1"
    unfolding p_def q_def by simp_all
  have b: "\<bar>b - p\<bar> \<le> (\<bar>p\<bar> + 1) / 2 ^ 53"
    unfolding b_def p_def by (rule fl_error)
  have q: "D * (17 / 20) \<le> q"
    unfolding q_def using D m by (intro mult_left_mono) simp_all
  have x: "x = max q M0" unfolding x_def q_def ..
  have x0: "0 \<le> x" "q \<le> x" using q D unfolding x by simp_all
  have c: "\<bar>c - x\<bar> \<le> \<bar>b - q\<bar>" unfolding c_def x by linarith
  have g: "\<bar>g - c * 100\<bar> \<le> (\<bar>c * 100\<bar> + 1) / 2 ^ 53"
    unfolding g_def by (rule fl_error)
  have k: "\<bar>of_int k - g\<bar> \<le> 1 / 2"
    unfolding k_def g_def c_def Math_round_def by linarith
  have c100: "\<bar>c * 100\<bar> = \<bar>c\<bar> * 100" by simp
  have bq: "\<bar>b - q\<bar> \<le> (5 * \<bar>D\<bar> + 4) / 2 ^ 53"
    using p1 p2 b unfolding p53 by argo
  have Dx: "\<bar>D\<bar> \<le> x * (20 / 17)"
    using q x0 D by argo
  have cx: "\<bar>c - x\<bar> \<le> (6 * x + 4) / 2 ^ 53"
    using c bq Dx x0 unfolding p53 by argo
  have gc: "\<bar>g - c * 100\<bar> \<le> (101 * x + 2) / 2 ^ 53"
    using g cx c100 x0 unfolding p53 by argo
  have "\<bar>of_int k - x * 100\<bar> \<le> 1 / 2 + 800 * (x + 1) / 2 ^ 53"
    using k gc cx x0 unfolding p53 by argo
  then have "\<bar>of_int k / 100 - x\<bar> \<le> 5 / 1000 + 8 * (x + 1) / 2 ^ 53"
    unfolding p53 by argo
  then have "\<bar>of_int k / 100 - x\<bar> \<le> 5 / 1000 + (x + 1) / 1125899906842624"
    unfolding p53 by argo
  moreover have "(2 :: real) ^ 50 = 1125899906842624" by simp
  ultimately show ?thesis by simp
qed


section \<open>Properties of the pricing function\<close>

subsection \<open>Multipliers and rounding\<close>

lemma own_multiplier_positive: "map_of equipmentMultipliers e = Some m \<Longrightarrow> 0 < m"
  by (simp add: equipmentMultipliers_def split: if_splits)

lemma multiplier_positive:
  assumes "e \<notin> set Object_prototype_keys"
  obtains m where "multiplier e = Num m" and "0 < m"
proof (cases "map_of equipmentMultipliers e")
  case None
  with assms have "multiplier e = Num 1"
    by (simp add: multiplier_def get_property_def)
  then show ?thesis using that by simp
next
  case (Some m)
  then have "0 < m" by (rule own_multiplier_positive)
  with Some have "multiplier e = Num m"
    by (simp add: multiplier_def get_property_def)
  with \<open>0 < m\<close> show ?thesis using that by simp
qed

lemma multiplier_six:
  "multiplier ''dry_van'' = Num 1.00" "multiplier ''reefer'' = Num 1.20"
  "multiplier ''flatbed'' = Num 1.15" "multiplier ''step_deck'' = Num 1.20"
  "multiplier ''hotshot'' = Num 0.85" "multiplier ''straight_truck'' = Num 0.95"
  by (simp_all add: multiplier_def get_property_def equipmentMultipliers_def)

lemma multiplier_unknown:
  "e \<notin> set (map fst equipmentMultipliers) \<Longrightarrow>
     multiplier e = (if e \<in> set Object_prototype_keys then NaN else Num 1)"
  by (simp add: multiplier_def get_property_def map_of_eq_None_iff [THEN iffD2])

lemma Math_round_mono: "x \<le> y \<Longrightarrow> Math_round x \<le> Math_round y"
  unfolding Math_round_def by (intro floor_mono) simp

text \<open>
  \<open>Math.round(x * 100) / 100\<close> is \<open>x\<close> rounded to two decimals: a whole number of
  hundredths, less than half a hundredth below \<open>x\<close> and at most half a hundredth above.
\<close>

lemma Math_round_nearest:
  "x - 1 / 2 < of_int (Math_round x)" "of_int (Math_round x) \<le> x + 1 / 2"
  unfolding Math_round_def by linarith+

lemma cents_nearest:
  fixes x :: real
  defines "r \<equiv> of_int (Math_round (x * 100)) / 100"
  shows "r * 100 \<in> \<int>" and "x - 0.005 < r" and "r \<le> x + 0.005"
  using Math_round_nearest [of "x * 100"] unfolding r_def by simp_all

lemma cents_mono:
  "x \<le> y \<Longrightarrow> of_int (Math_round (x * 100)) / 100 \<le> (of_int (Math_round (y * 100)) / 100 :: real)"
  by (simp add: Math_round_mono divide_right_mono)

lemma cents_keeps_floor:
  assumes "z * 100 \<in> \<int>" and "z \<le> x"
  shows "z \<le> of_int (Math_round (x * 100)) / 100"
proof -
  from assms(1) obtain k :: int where k: "z * 100 = of_int k"
    by (auto elim: Ints_cases)
  from assms(2) have "of_int k \<le> x * 100 + 1 / 2"
    using k by linarith
  then have "k \<le> Math_round (x * 100)"
    by (simp add: Math_round_def le_floor_iff)
  then have "(of_int k :: real) \<le> of_int (Math_round (x * 100))"
    by simp
  with k show ?thesis by linarith
qed

lemma weightFactor_below: "w \<le> 10000 \<Longrightarrow> weightFactor w = 0"
  by (simp add: weightFactor_def WEIGHT_THRESHOLD_def)

lemma weightFactor_mono:
  assumes vw: "v \<le> w"
  shows "weightFactor v \<le> weightFactor w"
proof (cases "v > WEIGHT_THRESHOLD")
  case True
  with vw have w: "w > WEIGHT_THRESHOLD" by simp
  from vw have "\<lceil>(v - WEIGHT_THRESHOLD) / 100\<rceil> \<le> \<lceil>(w - WEIGHT_THRESHOLD) / 100\<rceil>"
    by (intro ceiling_mono) simp
  then have "(of_int \<lceil>(v - WEIGHT_THRESHOLD) / 100\<rceil> :: real)
      \<le> of_int \<lceil>(w - WEIGHT_THRESHOLD) / 100\<rceil>"
    by simp
  with True w show ?thesis
    by (simp add: weightFactor_def WEIGHT_FACTOR_RATE_def Math_ceil_def)
next
  case False
  then have "weightFactor v = 0" by (simp add: weightFactor_def)
  moreover have "0 \<le> weightFactor w"
    by (simp add: weightFactor_def WEIGHT_FACTOR_RATE_def Math_ceil_def WEIGHT_THRESHOLD_def)
  ultimately show ?thesis by simp
qed

lemma calculateQuoteAmount_Num:
  "multiplier e = Num m \<Longrightarrow>
   calculateQuoteAmount env d e w =
     Num (of_int (Math_round (max (d * baseRatePerMile env * m
            + weightFactor (totalWeight_or_default w)) (minimumQuote env) * 100)) / 100)"
  by (simp add: calculateQuoteAmount_def quoteBeforeMinimum_def)

lemma default_env_values: "baseRatePerMile default_env = 2" "minimumQuote default_env = 100"
  by (simp_all add: baseRatePerMile_def minimumQuote_def default_env_def parseFloat_or_def)

lemma box_truck_unknown:
  "''box_truck'' \<notin> set (map fst equipmentMultipliers)" "''box_truck'' \<notin> set Object_prototype_keys"
  by (simp_all add: equipmentMultipliers_def Object_prototype_keys_def)

lemma hotshot_not_inherited: "''hotshot'' \<notin> set Object_prototype_keys"
  by (simp add: Object_prototype_keys_def)

lemma inherited_name_gives_NaN: "calculateQuoteAmount env d ''toString'' w = NaN"
  by (simp add: calculateQuoteAmount_def quoteBeforeMinimum_def multiplier_def get_property_def
      equipmentMultipliers_def Object_prototype_keys_def)


subsection \<open>Unknown equipment types\<close>

text \<open>
  C1, as stated: an equipment type outside the six values makes \<open>calculateQuoteAmount\<close> fail
  with an invalid-input error, and no amount is computed with a default multiplier. The
  function has no failing branch. For \<open>box_truck\<close>, which is not one of the six keys, a
  100-mile quote is 200.00, the amount of \<open>dry_van\<close>.
\<close>

theorem unknown_equipment_not_rejected:
  "''box_truck'' \<notin> set (map fst equipmentMultipliers) \<and>
   calculateQuoteAmount default_env 100 ''box_truck'' None = Num 200 \<and>
   calculateQuoteAmount default_env 100 ''dry_van'' None = Num 200"
proof -
  have "multiplier ''box_truck'' = Num 1"
    using multiplier_unknown [OF box_truck_unknown(1)] box_truck_unknown(2) by simp
  then have "calculateQuoteAmount default_env 100 ''box_truck'' None = Num 200"
    by (simp add: calculateQuoteAmount_Num default_env_values totalWeight_or_default_def
        weightFactor_below Math_round_def)
  moreover have "calculateQuoteAmount default_env 100 ''dry_van'' None = Num 200"
    by (simp add: calculateQuoteAmount_Num [OF multiplier_six(1)] default_env_values
        totalWeight_or_default_def weightFactor_below Math_round_def)
  ultimately show ?thesis
    using box_truck_unknown(1) by simp
qed

text \<open>
  C1, amended: \<open>calculateQuoteAmount\<close> returns a value for every equipment type. For a type
  outside the six keys it applies the multiplier 1.0 and so returns the amount of \<open>dry_van\<close>
  for the same distance and weight, unless the type is the name of a member of
  \<open>Object.prototype\<close>, in which case the result is \<open>NaN\<close>.
\<close>

theorem unknown_equipment_uses_multiplier_one:
  "equipmentType \<notin> set (map fst equipmentMultipliers) \<Longrightarrow>
   calculateQuoteAmount env distanceMiles equipmentType totalWeight =
     (if equipmentType \<in> set Object_prototype_keys then NaN
      else calculateQuoteAmount env distanceMiles ''dry_van'' totalWeight)"
  by (simp add: calculateQuoteAmount_def quoteBeforeMinimum_def multiplier_unknown multiplier_six)

theorem unknown_equipment_uses_multiplier_one_witness:
  "''box_truck'' \<notin> set (map fst equipmentMultipliers) \<and>
   calculateQuoteAmount default_env 40 ''box_truck'' (Some 12000) =
     calculateQuoteAmount default_env 40 ''dry_van'' (Some 12000)"
  using unknown_equipment_uses_multiplier_one [of "''box_truck''" default_env 40 "Some 12000"]
    box_truck_unknown
  by simp


subsection \<open>The binary64 amounts\<close>

lemma calculateQuoteAmount_binary64_Num:
  "multiplier e = Num m \<Longrightarrow>
   calculateQuoteAmount_binary64 env d e w =
     Num (round_to_cents_binary64
       (max (if totalWeight_or_default w > 10000
             then fl (fl (fl (d * fl (baseRatePerMile env)) * fl m)
                      + weightFactor_binary64 (totalWeight_or_default w))
             else fl (fl (d * fl (baseRatePerMile env)) * fl m))
            (fl (minimumQuote env))))"
  by (simp add: calculateQuoteAmount_binary64_def quoteBeforeMinimum_binary64_def
      WEIGHT_THRESHOLD_def)

text \<open>
  Two equalities of the exact definition carry over as they are: an unknown equipment type
  gives the binary64 amount of \<open>dry_van\<close>, and a weight up to the threshold that of weight 0.
\<close>

lemma unknown_equipment_binary64:
  "e \<notin> set (map fst equipmentMultipliers) \<Longrightarrow> e \<notin> set Object_prototype_keys \<Longrightarrow>
   calculateQuoteAmount_binary64 env d e w = calculateQuoteAmount_binary64 env d ''dry_van'' w"
  by (simp add: calculateQuoteAmount_binary64_def quoteBeforeMinimum_binary64_def
      multiplier_unknown multiplier_six)

lemma weight_up_to_threshold_binary64:
  "totalWeight_or_default w \<le> 10000 \<Longrightarrow>
   calculateQuoteAmount_binary64 env d e w = calculateQuoteAmount_binary64 env d e (Some 0)"
  by (cases "multiplier e")
    (simp_all add: calculateQuoteAmount_binary64_def quoteBeforeMinimum_binary64_def
      WEIGHT_THRESHOLD_def totalWeight_or_default_def)

lemma fl_rate: "fl WEIGHT_FACTOR_RATE = 3602879701896397 / 2 ^ 55"
  unfolding WEIGHT_FACTOR_RATE_def by code_simp

lemma increments_exact:
  fixes n :: int
  assumes "10000 < n" and "n \<le> 1000000000"
  shows "Math_ceil (fl (fl (of_int n - WEIGHT_THRESHOLD) / 100)) = \<lceil>(of_int n - 10000) / 100 :: real\<rceil>"
proof -
  define j where "j = n - 10000"
  from assms have j: "0 < j" "j < 1000000000" unfolding j_def by simp_all
  have "fl (of_int n - WEIGHT_THRESHOLD) = fl (of_int j)"
    by (simp add: WEIGHT_THRESHOLD_def j_def)
  also have "\<dots> = of_int j"
    using j by (intro fl_of_int) simp
  finally have over: "fl (of_int n - WEIGHT_THRESHOLD) = of_int j" .
  have exact: "(of_int n - 10000) / 100 = (of_int j / 100 :: real)"
    by (simp add: j_def)
  define y where "y = fl (of_int j / 100)"
  have "\<lceil>y\<rceil> = \<lceil>of_int j / 100 :: real\<rceil>"
  proof (cases "100 dvd j")
    case True
    then obtain q where q: "j = 100 * q" ..
    with j have "\<bar>q\<bar> < 2 ^ 53" by simp
    then have "fl (of_int q) = of_int q" by (rule fl_of_int)
    with q show ?thesis by (simp add: y_def)
  next
    case False
    define q where "q = j div 100"
    define r where "r = j mod 100"
    have jqr: "j = 100 * q + r" unfolding q_def r_def by simp
    have r: "1 \<le> r" "r \<le> 99"
      using False unfolding r_def by presburger+
    have x: "(of_int j / 100 :: real) = of_int q + of_int r / 100"
      unfolding jqr by simp
    have lo: "of_int q + 1 / 100 \<le> (of_int j / 100 :: real)"
      and hi: "(of_int j / 100 :: real) \<le> of_int q + 99 / 100"
      unfolding x using r by simp_all
    have c: "\<lceil>of_int j / 100 :: real\<rceil> = q + 1"
      using lo hi by (intro ceiling_unique) simp_all
    have "\<bar>y - of_int j / 100\<bar> \<le> (\<bar>of_int j / 100\<bar> + 1) / 2 ^ 53"
      unfolding y_def by (rule fl_error)
    moreover have "\<bar>of_int j / 100 :: real\<bar> \<le> 10000000"
      using j by simp
    ultimately have "\<bar>y - of_int j / 100\<bar> \<le> 1 / 1000"
      unfolding p53 by argo
    with lo hi have "of_int q < y" "y \<le> of_int q + 1" by argo+
    then have "\<lceil>y\<rceil> = q + 1"
      by (intro ceiling_unique) simp_all
    with c show ?thesis by simp
  qed
  then show ?thesis
    unfolding Math_ceil_def over exact y_def .
qed

lemma surcharge_error:
  fixes k :: int
  assumes "0 \<le> k"
  shows "\<bar>fl (of_int k * fl WEIGHT_FACTOR_RATE) - of_int k * 0.10\<bar> \<le> (2 * of_int k + 1) / 2 ^ 53"
proof -
  define x :: real where "x = of_int k"
  have x: "0 \<le> x" using assms by (simp add: x_def)
  have "\<bar>fl (x * (3602879701896397 / 2 ^ 55)) - x * (3602879701896397 / 2 ^ 55)\<bar>
      \<le> (\<bar>x * (3602879701896397 / 2 ^ 55)\<bar> + 1) / 2 ^ 53"
    by (rule fl_error)
  moreover have "\<bar>x * (3602879701896397 / 2 ^ 55)\<bar> = x * (3602879701896397 / 2 ^ 55)"
    using x by simp
  ultimately have "\<bar>fl (x * (3602879701896397 / 2 ^ 55)) - x * (10 / 10\<^sup>2)\<bar> \<le> (2 * x + 1) / 2 ^ 53"
    using x by (simp; argo)
  then show ?thesis by (simp add: fl_rate x_def)
qed


subsection \<open>Weight surcharge\<close>

text \<open>
  C5, as stated: the surcharge added before the minimum is 0 at 10000 lb, exactly 0.10 at
  10001 lb and exactly 0.30 at 10250 lb. At 10250 lb the code adds three times the binary64
  number nearest 0.10, rounded: 0.3000000000000000444, which is not 0.30. The difference
  shows in the result: for 255.9375 miles of \<open>dry_van\<close> the amount is 511.88 at 10000 lb and
  512.17 at 10250 lb, where 511.875 + 0.30 would round to 512.18.
\<close>

theorem surcharge_is_not_thirty_cents:
  "weightFactor_binary64 10250 = 5404319552844596 / 2 ^ 54 \<and>
   (5404319552844596 / 2 ^ 54 :: real) \<noteq> 0.30 \<and>
   calculateQuoteAmount_binary64 default_env 255.9375 ''dry_van'' (Some 10000) = Num (fl 511.88) \<and>
   calculateQuoteAmount_binary64 default_env 255.9375 ''dry_van'' (Some 10250) = Num (fl 512.17) \<and>
   of_int (Math_round ((255.9375 * 2.00 * 1.00 + 0.30) * 100)) / 100 = (512.18 :: real) \<and>
   fl 512.17 \<noteq> fl 512.18"
  by code_simp

text \<open>
  C5, amended: with the threshold 10000 and the rate 0.10, and binary64 arguments and settings
  of magnitude up to \<open>10 ^ 100\<close>, \<open>calculateQuoteAmount\<close> adds nothing for a weight up to 10000 lb,
  and for a heavier one adds, before the minimum and the rounding to cents, the binary64 product of the
  number of increments \<open>ceil((totalWeight - 10000) / 100)\<close> (difference and quotient formed in
  binary64) and the binary64 number nearest 0.10. For a whole number of pounds up to
  \<open>10 ^ 9\<close> the number of increments is the exact ceiling, and the amount added is within
  \<open>(2 * increments + 1) / 2 ^ 53\<close> of increments times 0.10: one increment is the binary64
  0.1, three are 0.3000000000000000444. At 100 miles of \<open>dry_van\<close> the amounts returned for
  10000, 10001 and 10250 lb are 200, 200.10 and 200.30 (the nearest binary64 numbers).
\<close>

theorem weight_surcharge_binary64:
  fixes n :: int
  assumes "multiplier equipmentType = Num m"
    and "binary64_in_range distanceMiles" "binary64_in_range totalWeight"
    and "binary64_in_range (baseRatePerMile env)" "binary64_in_range (minimumQuote env)"
  shows
   "calculateQuoteAmount_binary64 env distanceMiles equipmentType (Some totalWeight) =
      Num (round_to_cents_binary64
        (max (if totalWeight > 10000
              then fl (fl (fl (distanceMiles * fl (baseRatePerMile env)) * fl m)
                       + fl (of_int \<lceil>fl (fl (totalWeight - 10000) / 100)\<rceil> * fl 0.10))
              else fl (fl (distanceMiles * fl (baseRatePerMile env)) * fl m))
             (fl (minimumQuote env)))) \<and>
    (10000 < n \<and> n \<le> 1000000000 \<longrightarrow>
       \<lceil>fl (fl (of_int n - 10000) / 100)\<rceil> = \<lceil>(of_int n - 10000) / 100 :: real\<rceil> \<and>
       \<bar>fl (of_int \<lceil>(of_int n - 10000) / 100 :: real\<rceil> * fl 0.10)
          - of_int \<lceil>(of_int n - 10000) / 100 :: real\<rceil> * 0.10\<bar>
         \<le> (2 * of_int \<lceil>(of_int n - 10000) / 100 :: real\<rceil> + 1) / 2 ^ 53) \<and>
    fl (1 * fl 0.10) = fl 0.10 \<and> fl (3 * fl 0.10) = 5404319552844596 / 2 ^ 54 \<and>
    calculateQuoteAmount_binary64 default_env 100 ''dry_van'' (Some 10000) = Num 200 \<and>
    calculateQuoteAmount_binary64 default_env 100 ''dry_van'' (Some 10001) = Num (fl 200.10) \<and>
    calculateQuoteAmount_binary64 default_env 100 ''dry_van'' (Some 10250) = Num (fl 200.30)"
proof -
  have general: "calculateQuoteAmount_binary64 env distanceMiles equipmentType (Some totalWeight) =
      Num (round_to_cents_binary64
        (max (if totalWeight > 10000
              then fl (fl (fl (distanceMiles * fl (baseRatePerMile env)) * fl m)
                       + fl (of_int \<lceil>fl (fl (totalWeight - 10000) / 100)\<rceil> * fl 0.10))
              else fl (fl (distanceMiles * fl (baseRatePerMile env)) * fl m))
             (fl (minimumQuote env))))"
    unfolding calculateQuoteAmount_binary64_Num [OF assms(1)]
    by (simp add: totalWeight_or_default_def weightFactor_binary64_def WEIGHT_THRESHOLD_def
        WEIGHT_FACTOR_RATE_def Math_ceil_def)
  have whole: "10000 < n \<and> n \<le> 1000000000 \<longrightarrow>
       \<lceil>fl (fl (of_int n - 10000) / 100)\<rceil> = \<lceil>(of_int n - 10000) / 100 :: real\<rceil> \<and>
       \<bar>fl (of_int \<lceil>(of_int n - 10000) / 100 :: real\<rceil> * fl 0.10)
          - of_int \<lceil>(of_int n - 10000) / 100 :: real\<rceil> * 0.10\<bar>
         \<le> (2 * of_int \<lceil>(of_int n - 10000) / 100 :: real\<rceil> + 1) / 2 ^ 53"
  proof
    assume n: "10000 < n \<and> n \<le> 1000000000"
    then have "0 \<le> \<lceil>(of_int n - 10000) / 100 :: real\<rceil>"
      by (simp add: ceiling_le_iff le_ceiling_iff)
    then show "\<lceil>fl (fl (of_int n - 10000) / 100)\<rceil> = \<lceil>(of_int n - 10000) / 100 :: real\<rceil> \<and>
       \<bar>fl (of_int \<lceil>(of_int n - 10000) / 100 :: real\<rceil> * fl 0.10)
          - of_int \<lceil>(of_int n - 10000) / 100 :: real\<rceil> * 0.10\<bar>
         \<le> (2 * of_int \<lceil>(of_int n - 10000) / 100 :: real\<rceil> + 1) / 2 ^ 53"
      using increments_exact [of n] n surcharge_error [of "\<lceil>(of_int n - 10000) / 100 :: real\<rceil>"]
      by (simp add: Math_ceil_def WEIGHT_THRESHOLD_def WEIGHT_FACTOR_RATE_def)
  qed
  have increments: "fl (1 * fl 0.10) = fl 0.10" "fl (3 * fl 0.10) = 5404319552844596 / 2 ^ 54"
    by code_simp+
  have amounts:
    "calculateQuoteAmount_binary64 default_env 100 ''dry_van'' (Some 10000) = Num 200"
    "calculateQuoteAmount_binary64 default_env 100 ''dry_van'' (Some 10001) = Num (fl 200.10)"
    "calculateQuoteAmount_binary64 default_env 100 ''dry_van'' (Some 10250) = Num (fl 200.30)"
    by code_simp+
  from general whole increments amounts show ?thesis by (intro conjI)
qed

theorem weight_surcharge_binary64_witness:
  "multiplier ''dry_van'' = Num 1 \<and>
   binary64_in_range 100 \<and> binary64_in_range 10250 \<and>
   binary64_in_range (baseRatePerMile default_env) \<and>
   binary64_in_range (minimumQuote default_env) \<and>
   ((10000 :: int) < 10250 \<and> (10250 :: int) \<le> 1000000000) \<and>
   (\<lceil>fl (fl (of_int (10250 :: int) - 10000) / 100)\<rceil> = \<lceil>(of_int (10250 :: int) - 10000) / 100 :: real\<rceil> \<and>
    \<bar>fl (of_int \<lceil>(of_int (10250 :: int) - 10000) / 100 :: real\<rceil> * fl 0.10)
       - of_int \<lceil>(of_int (10250 :: int) - 10000) / 100 :: real\<rceil> * 0.10\<bar>
      \<le> (2 * of_int \<lceil>(of_int (10250 :: int) - 10000) / 100 :: real\<rceil> + 1) / 2 ^ 53) \<and>
   \<lceil>(of_int (10250 :: int) - 10000) / 100 :: real\<rceil> = 3 \<and>
   calculateQuoteAmount_binary64 default_env 100 ''dry_van'' (Some 10250) = Num (fl 200.30)"
proof -
  have m: "multiplier ''dry_van'' = Num 1"
    using multiplier_six(1) by simp
  have d: "binary64_in_range 100"
    using fl_of_int [of 100] by (simp add: binary64_in_range_def)
  have w: "binary64_in_range 10250"
    using fl_of_int [of 10250] by (simp add: binary64_in_range_def)
  have env: "binary64_in_range (baseRatePerMile default_env)"
    "binary64_in_range (minimumQuote default_env)"
    using fl_of_int [of 2] fl_of_int [of 100]
    by (simp_all add: default_env_values binary64_in_range_def)
  have n: "(10000 :: int) < 10250 \<and> (10250 :: int) \<le> 1000000000"
    by simp
  note t = weight_surcharge_binary64 [OF m d w env, of 10250]
  note whole = t [THEN conjunct2, THEN conjunct1, THEN mp, OF n]
  have three: "\<lceil>(of_int (10250 :: int) - 10000) / 100 :: real\<rceil> = 3"
    by (simp add: ceiling_eq_iff)
  have amount: "calculateQuoteAmount_binary64 default_env 100 ''dry_van'' (Some 10250) = Num (fl 200.30)"
    using t by (elim conjE)
  from m d w env n whole three amount show ?thesis by blast
qed


subsection \<open>The six equipment types without a weight\<close>

text \<open>
  C6, as stated: without a weight and with the defaults, the amount is the larger of distance
  times 2.00 times the multiplier and 100.00, rounded to two decimals. For 43.75 miles of
  \<open>flatbed\<close> that is 100.625, which rounds to 100.63. The code forms the product in
  binary64, gets a number just below 100.625, and returns 100.62.
\<close>

theorem flatbed_tie_rounds_down:
  "calculateQuoteAmount_binary64 default_env 43.75 ''flatbed'' None = Num (fl 100.62) \<and>
   max (43.75 * 2.00 * 1.15) 100.00 = (100.625 :: real) \<and>
   of_int (Math_round (100.625 * 100)) / 100 = (100.63 :: real) \<and>
   fl 100.62 \<noteq> fl 100.63"
  by code_simp

text \<open>
  C6, amended: for a distance from 0 to \<open>10 ^ 100\<close> miles and each of the six equipment
  types, without a weight, with a base rate and a minimum quote that are binary64 numbers of
  magnitude up to \<open>10 ^ 100\<close>, the base rate not negative (the defaults are 2.00 and 100.00),
  \<open>calculateQuoteAmount\<close> returns the binary64 number nearest to \<open>k / 100\<close> for a whole
  number of cents \<open>k\<close>, and \<open>k / 100\<close> differs from \<open>x\<close>, the larger of distance times base
  rate times the multiplier and the minimum quote, by at most \<open>0.005 + (x + 1) / 2 ^ 50\<close>.
  The multipliers are 1.00, 1.20, 1.15, 1.20, 0.85 and 0.95. The products and the scaling by
  100 are rounded to binary64 before \<open>Math.round\<close>, so an amount that close to a half cent
  goes to either neighbouring cent.
\<close>

theorem quote_without_weight_binary64:
  assumes d: "0 \<le> distanceMiles" "distanceMiles \<le> 10 ^ 100"
    and rate: "binary64_in_range (baseRatePerMile env)" "0 \<le> baseRatePerMile env"
    and minimum: "binary64_in_range (minimumQuote env)"
    and e: "(equipmentType, m) \<in>
        {(''dry_van'', 1.00), (''reefer'', 1.20), (''flatbed'', 1.15),
         (''step_deck'', 1.20), (''hotshot'', 0.85), (''straight_truck'', 0.95)}"
  shows "\<exists>k. calculateQuoteAmount_binary64 env distanceMiles equipmentType None
               = Num (fl (of_int k / 100)) \<and>
             \<bar>of_int k / 100
                - max (distanceMiles * baseRatePerMile env * m) (minimumQuote env)\<bar>
               \<le> 0.005
                 + (max (distanceMiles * baseRatePerMile env * m) (minimumQuote env) + 1) / 2 ^ 50"
proof -
  from e have mult: "multiplier equipmentType = Num m" and m: "17 / 20 \<le> m" "m \<le> 6 / 5"
    using multiplier_six by auto
  from rate(1) minimum have fl_env: "fl (baseRatePerMile env) = baseRatePerMile env"
    "fl (minimumQuote env) = minimumQuote env"
    by (simp_all add: binary64_in_range_def)
  define D where "D = distanceMiles * baseRatePerMile env"
  have D: "0 \<le> D" unfolding D_def using d(1) rate(2) by simp
  define k where "k = Math_round (fl (max (fl (fl D * fl m)) (minimumQuote env) * 100))"
  have "calculateQuoteAmount_binary64 env distanceMiles equipmentType None
      = Num (fl (of_int k / 100))"
    unfolding calculateQuoteAmount_binary64_Num [OF mult] k_def D_def
    by (simp add: totalWeight_or_default_def fl_env round_to_cents_binary64_def)
  moreover have "\<bar>of_int k / 100 - max (D * m) (minimumQuote env)\<bar>
      \<le> 0.005 + (max (D * m) (minimumQuote env) + 1) / 2 ^ 50"
    unfolding k_def using D m by (rule cents_error)
  ultimately show ?thesis unfolding D_def by auto
qed

theorem quote_without_weight_binary64_witness:
  "(0 :: real) \<le> 43.75 \<and> (43.75 :: real) \<le> 10 ^ 100 \<and>
   binary64_in_range (baseRatePerMile default_env) \<and> 0 \<le> baseRatePerMile default_env \<and>
   binary64_in_range (minimumQuote default_env) \<and>
   baseRatePerMile default_env = 2.00 \<and> minimumQuote default_env = 100.00 \<and>
   (''flatbed'', 1.15 :: real) \<in>
        {(''dry_van'', 1.00), (''reefer'', 1.20), (''flatbed'', 1.15),
         (''step_deck'', 1.20), (''hotshot'', 0.85), (''straight_truck'', 0.95)} \<and>
   (\<exists>k. calculateQuoteAmount_binary64 default_env 43.75 ''flatbed'' None
               = Num (fl (of_int k / 100)) \<and>
             \<bar>of_int k / 100
                - max (43.75 * baseRatePerMile default_env * 1.15) (minimumQuote default_env)\<bar>
               \<le> 0.005
                 + (max (43.75 * baseRatePerMile default_env * 1.15) (minimumQuote default_env) + 1)
                   / 2 ^ 50)"
proof -
  have d: "(0 :: real) \<le> 43.75" "(43.75 :: real) \<le> 10 ^ 100"
    by simp_all
  have rate: "binary64_in_range (baseRatePerMile default_env)" "0 \<le> baseRatePerMile default_env"
    using fl_of_int [of 2] by (simp_all add: default_env_values binary64_in_range_def)
  have minimum: "binary64_in_range (minimumQuote default_env)"
    using fl_of_int [of 100] by (simp add: default_env_values binary64_in_range_def)
  have defaults: "baseRatePerMile default_env = 2.00" "minimumQuote default_env = 100.00"
    by (simp_all add: default_env_values)
  have e: "(''flatbed'', 1.15 :: real) \<in>
        {(''dry_van'', 1.00), (''reefer'', 1.20), (''flatbed'', 1.15),
         (''step_deck'', 1.20), (''hotshot'', 0.85), (''straight_truck'', 0.95)}"
    by simp
  from quote_without_weight_binary64 [OF d rate minimum e] d rate minimum defaults e
  show ?thesis by blast
qed


subsection \<open>The minimum is applied last\<close>

text \<open>
  C7: the minimum is taken after the multiplier and the weight surcharge, so the amount
  returned is never below the minimum quote, whatever the distance, the equipment type and the
  weight. The minimum is a whole number of cents, as the default 100.00 is; the equipment type
  is any string that does not name a member of \<open>Object.prototype\<close>, the six types among them.
\<close>

theorem minimum_quote_is_a_floor:
  assumes "equipmentType \<notin> set Object_prototype_keys" and "minimumQuote env * 100 \<in> \<int>"
  shows "js_le (Num (minimumQuote env))
           (calculateQuoteAmount env distanceMiles equipmentType totalWeight)"
proof -
  from assms(1) obtain m where m: "multiplier equipmentType = Num m"
    by (rule multiplier_positive)
  have "minimumQuote env \<le> of_int (Math_round (max (distanceMiles * baseRatePerMile env * m
          + weightFactor (totalWeight_or_default totalWeight)) (minimumQuote env) * 100)) / 100"
    using assms(2) by (rule cents_keeps_floor) simp
  then show ?thesis
    unfolding calculateQuoteAmount_Num [OF m] by (simp only: js_le.simps)
qed

theorem minimum_quote_is_a_floor_witness:
  "''hotshot'' \<notin> set Object_prototype_keys \<and> minimumQuote default_env * 100 \<in> \<int> \<and>
   minimumQuote default_env = 100 \<and>
   js_le (Num (minimumQuote default_env)) (calculateQuoteAmount default_env 3 ''hotshot'' None)"
  using minimum_quote_is_a_floor [of "''hotshot''" default_env 3 None] hotshot_not_inherited
  by (simp add: default_env_values)


subsection \<open>Monotonicity\<close>

text \<open>
  C9: for a fixed equipment type and weight a longer distance never gives a smaller amount,
  and for a fixed equipment type and distance a larger weight never gives a smaller amount.
  The base rate per mile is not negative (the default is 2.00); an omitted weight counts as 0.
\<close>

theorem amount_monotone:
  assumes e: "e \<notin> set Object_prototype_keys" and rate: "0 \<le> baseRatePerMile env"
    and d: "d1 \<le> d2" and w: "totalWeight_or_default w1 \<le> totalWeight_or_default w2"
  shows "js_le (calculateQuoteAmount env d1 e w1) (calculateQuoteAmount env d2 e w1) \<and>
         js_le (calculateQuoteAmount env d1 e w1) (calculateQuoteAmount env d1 e w2)"
proof -
  from e obtain m where m: "multiplier e = Num m" and pos: "0 < m"
    by (rule multiplier_positive)
  from d rate pos have "d1 * baseRatePerMile env * m \<le> d2 * baseRatePerMile env * m"
    by (simp add: mult_right_mono)
  then have "max (d1 * baseRatePerMile env * m + weightFactor (totalWeight_or_default w1))
                 (minimumQuote env)
      \<le> max (d2 * baseRatePerMile env * m + weightFactor (totalWeight_or_default w1))
             (minimumQuote env)"
    by (simp add: max.coboundedI1)
  then have distance: "js_le (calculateQuoteAmount env d1 e w1) (calculateQuoteAmount env d2 e w1)"
    unfolding calculateQuoteAmount_Num [OF m] js_le.simps by (rule cents_mono)
  from w have "weightFactor (totalWeight_or_default w1) \<le> weightFactor (totalWeight_or_default w2)"
    by (rule weightFactor_mono)
  then have "max (d1 * baseRatePerMile env * m + weightFactor (totalWeight_or_default w1))
                 (minimumQuote env)
      \<le> max (d1 * baseRatePerMile env * m + weightFactor (totalWeight_or_default w2))
             (minimumQuote env)"
    by (simp add: max.coboundedI1)
  then have weight: "js_le (calculateQuoteAmount env d1 e w1) (calculateQuoteAmount env d1 e w2)"
    unfolding calculateQuoteAmount_Num [OF m] js_le.simps by (rule cents_mono)
  from distance weight show ?thesis by (rule conjI)
qed

theorem amount_monotone_witness:
  "''hotshot'' \<notin> set Object_prototype_keys \<and> 0 \<le> baseRatePerMile default_env \<and>
   (10 :: real) \<le> 1000 \<and> totalWeight_or_default None \<le> totalWeight_or_default (Some 12000) \<and>
   js_le (calculateQuoteAmount default_env 10 ''hotshot'' None)
         (calculateQuoteAmount default_env 1000 ''hotshot'' None) \<and>
   js_le (calculateQuoteAmount default_env 10 ''hotshot'' None)
         (calculateQuoteAmount default_env 10 ''hotshot'' (Some 12000))"
  using amount_monotone [of "''hotshot''" default_env 10 1000 None "Some 12000"]
    hotshot_not_inherited
  by (simp add: default_env_values totalWeight_or_default_def)


subsection \<open>Weights at or below the threshold\<close>

text \<open>
  C10: a weight at or below 10000 lb (zero, a negative weight, or the argument left out) adds
  no surcharge and is not rejected: the function returns a number, the same as for weight 0.
\<close>

theorem weight_up_to_threshold_is_free:
  assumes "e \<notin> set Object_prototype_keys" and "totalWeight_or_default w \<le> 10000"
  shows "calculateQuoteAmount env d e w = calculateQuoteAmount env d e (Some 0) \<and>
         calculateQuoteAmount env d e w \<noteq> NaN"
proof -
  from assms(1) obtain m where m: "multiplier e = Num m"
    by (rule multiplier_positive)
  have "weightFactor (totalWeight_or_default (Some 0)) = 0"
    by (simp add: weightFactor_below totalWeight_or_default_def)
  with assms(2) show ?thesis
    unfolding calculateQuoteAmount_Num [OF m] by (simp add: weightFactor_below)
qed

theorem weight_up_to_threshold_is_free_witness:
  "''hotshot'' \<notin> set Object_prototype_keys \<and> totalWeight_or_default (Some (- 500)) \<le> 10000 \<and>
   calculateQuoteAmount default_env 1000 ''hotshot'' (Some (- 500)) =
     calculateQuoteAmount default_env 1000 ''hotshot'' (Some 0) \<and>
   calculateQuoteAmount default_env 1000 ''hotshot'' (Some (- 500)) \<noteq> NaN"
  using weight_up_to_threshold_is_free [of "''hotshot''" "Some (- 500)" default_env 1000]
    hotshot_not_inherited
  by (auto simp: totalWeight_or_default_def)


section \<open>Properties of the location resolver\<close>

lemma bounds_message_mentions_North_America:
  "includes_text (error_message (OutsideNorthAmerica lat lon)) ''North America''"
  by simp

lemma geocode_catch_bounds:
  "geocode_catch (OutsideNorthAmerica lat lon) = Rethrown (OutsideNorthAmerica lat lon)"
  unfolding geocode_catch_def using bounds_message_mentions_North_America by simp

lemma validateNorthAmericaBounds_iff:
  "validateNorthAmericaBounds lat lon \<longleftrightarrow>
     (\<exists>la lo. lat = Num la \<and> lon = Num lo \<and> 7 \<le> la \<and> la \<le> 83 \<and> - 180 \<le> lo \<and> lo \<le> - 50)"
  by (cases lat; cases lon) (simp_all add: validateNorthAmericaBounds_def)

lemma falsy_iff: "falsy v \<longleftrightarrow> \<not> truthy v"
  by (simp add: falsy_def truthy_def split: option.splits)

lemma geocode_try_Inr:
  assumes "geocode_try axios_get location query = Inr point"
  shows "validateNorthAmericaBounds (latitude point) (longitude point)"
  using assms
  by (auto simp: geocode_try_def Let_def
      split: axios_result.splits option.splits list.splits nominatim_result.splits if_splits)

lemma geocodeLocation_Inr:
  assumes "geocodeLocation axios_get location = Inr point"
  shows "validateNorthAmericaBounds (latitude point) (longitude point)"
  using assms
  by (auto simp: geocodeLocation_def Let_def dest: geocode_try_Inr split: if_splits sum.splits)

lemma geocode_try_outside:
  assumes "geocode_request axios_get location query
             = Resolved (Some (NominatimResult lat lon name # rest))"
    and "\<not> validateNorthAmericaBounds lat lon"
  shows "geocode_try axios_get location query = Inl (OutsideNorthAmerica lat lon)"
  using assms by (simp add: geocode_try_def)

lemma toronto_queries:
  "buildGeocodingQuery (city toronto) (state_province toronto) (postal_code toronto) (country toronto)
     = ''M5H 2N2, Toronto, ON, Canada''"
  "buildGeocodingQuery (city toronto) (state_province toronto) None (country toronto)
     = ''Toronto, ON, Canada''"
  by (simp_all add: toronto_def buildGeocodingQuery_def push_if_def countryNames_def)

lemma paris_texas_query:
  "buildGeocodingQuery (city paris_texas) (state_province paris_texas) (postal_code paris_texas)
     (country paris_texas) = ''Paris, TX, United States''"
  by (simp add: paris_texas_def buildGeocodingQuery_def push_if_def countryNames_def)

text \<open>
  The retry never repeats the first query: the query without the postal code is shorter. So a
  function from queries to answers describes any provider over the two requests of one call.
\<close>

lemma push_if_append: "push_if v (a @ xs) = a @ push_if v xs"
  by (simp add: push_if_def split: option.splits)

lemma join_Cons: "join (p # ps) = (if ps = [] then p else p @ '', '' @ join ps)"
  by (cases ps) simp_all

lemma buildGeocodingQuery_parts:
  "buildGeocodingQuery c s pc k =
     join (push_if pc [] @ push_if c [] @ push_if s [] @
       (case k of None \<Rightarrow> [] | Some x \<Rightarrow>
          if x = [] then [] else [case map_of countryNames x of Some name \<Rightarrow> name | None \<Rightarrow> x]))"
proof -
  have "push_if s (push_if c (push_if pc [])) = push_if pc [] @ push_if c [] @ push_if s []"
    using push_if_append [of c "push_if pc []" "[]"]
      push_if_append [of s "push_if pc [] @ push_if c []" "[]"]
    by simp
  then show ?thesis
    by (simp add: buildGeocodingQuery_def Let_def split: option.splits)
qed

lemma retry_query_differs:
  assumes "truthy postalCode"
  shows "buildGeocodingQuery c s postalCode k \<noteq> buildGeocodingQuery c s None k"
proof -
  from assms obtain p where p: "postalCode = Some p" "p \<noteq> []"
    by (auto simp: truthy_def split: option.splits)
  define rest where "rest = push_if c [] @ push_if s [] @
       (case k of None \<Rightarrow> [] | Some x \<Rightarrow>
          if x = [] then [] else [case map_of countryNames x of Some name \<Rightarrow> name | None \<Rightarrow> x])"
  have "buildGeocodingQuery c s None k = join rest"
    unfolding buildGeocodingQuery_parts rest_def by (simp add: push_if_def)
  moreover have "buildGeocodingQuery c s postalCode k = join (p # rest)"
    unfolding buildGeocodingQuery_parts rest_def using p by (simp add: push_if_def)
  moreover have "length (join (p # rest)) > length (join rest)"
    using p(2) by (simp add: join_Cons)
  ultimately show ?thesis by auto
qed

text \<open>
  The retry in general: when the request with the postal code rejects and the request without
  it finds a point inside the bounds, the point is returned with the tag \<open>postal_code\<close>.
\<close>

lemma retry_keeps_postal_code_tag:
  assumes "truthy (city location)" "truthy (country location)" "truthy (postal_code location)"
    and "axios_get (buildGeocodingQuery (city location) (state_province location)
            (postal_code location) (country location)) = Rejected err"
    and "axios_get (buildGeocodingQuery (city location) (state_province location)
            None (country location)) = Resolved (Some (NominatimResult lat lon name # rest))"
    and "validateNorthAmericaBounds lat lon"
  shows "geocodeLocation axios_get location =
           Inr \<lparr>latitude = lat, longitude = lon, accuracy = ''postal_code'', display_name = name\<rparr>"
  using assms by (simp add: geocodeLocation_def geocode_try_def geocode_request_def falsy_iff)

lemma paris_texas_in_toronto:
  "geocodeLocation geocoder_in_toronto paris_texas =
     Inr \<lparr>latitude = Num 43.65, longitude = Num (- 79.38), accuracy = ''city_state'',
          display_name = ''Toronto, Ontario, Canada''\<rparr>"
  by (simp add: geocodeLocation_def geocode_try_def geocode_request_def geocoder_in_toronto_def
      validateNorthAmericaBounds_def falsy_def truthy_def paris_texas_def)

lemma paris_texas_request:
  "geocode_request geocoder_in_france paris_texas
     (buildGeocodingQuery (city paris_texas) (state_province paris_texas) (postal_code paris_texas)
        (country paris_texas))
   = Resolved (Some (NominatimResult (Num 48.85) (Num 2.35) ''Paris, France'' # []))"
  by (simp add: geocode_request_def geocoder_in_france_def)


subsection \<open>The tag after the retry\<close>

text \<open>
  C2: with a postal code, a state, a city and a country, when the request that includes the
  postal code fails and the retry without it finds a point inside the bounds,
  \<open>geocodeLocation\<close> succeeds and should tag the point \<open>city_state\<close>, the postal code having
  been dropped. Evaluated on Toronto with a geocoder that rejects the query with the postal
  code: the call succeeds with the coordinates of the retry, and the tag is \<open>postal_code\<close>.
  The tag is computed from the postal code of the input, whichever query was answered
  (\<open>retry_keeps_postal_code_tag\<close>).
\<close>

theorem retry_without_postal_code_tagged_postal_code:
  "geocodeLocation geocoder_without_postal_codes toronto =
     Inr \<lparr>latitude = Num 43.65, longitude = Num (- 79.38), accuracy = ''postal_code'',
          display_name = ''Toronto, Ontario, Canada''\<rparr>"
proof -
  have "truthy (city toronto)" "truthy (country toronto)" "truthy (postal_code toronto)"
    by (simp_all add: toronto_def truthy_def)
  moreover have "geocoder_without_postal_codes
      (buildGeocodingQuery (city toronto) (state_province toronto) (postal_code toronto)
         (country toronto)) = Rejected (AxiosError None None ''Network Error'')"
    by (simp add: toronto_queries geocoder_without_postal_codes_def)
  moreover have "geocoder_without_postal_codes
      (buildGeocodingQuery (city toronto) (state_province toronto) None (country toronto))
      = Resolved (Some [NominatimResult (Num 43.65) (Num (- 79.38)) ''Toronto, Ontario, Canada''])"
    by (simp add: toronto_queries geocoder_without_postal_codes_def)
  moreover have "validateNorthAmericaBounds (Num 43.65) (Num (- 79.38))"
    by (simp add: validateNorthAmericaBounds_def)
  ultimately show ?thesis
    by (rule retry_keeps_postal_code_tag)
qed


subsection \<open>The bounding box\<close>

text \<open>
  C8: every point that \<open>geocodeLocation\<close> returns has its latitude in [7, 83] and its
  longitude in [-180, -50]; and when the answer that the provider gave (to the query, or to
  the retry) has its first entry outside this box, \<open>geocodeLocation\<close> fails with the
  out-of-bounds error, which the \<open>catch\<close> block throws again unchanged.
\<close>

theorem geocoded_point_in_bounds:
  "(geocodeLocation axios_get location = Inr point \<longrightarrow>
      (\<exists>la lo. latitude point = Num la \<and> longitude point = Num lo \<and>
         7 \<le> la \<and> la \<le> 83 \<and> - 180 \<le> lo \<and> lo \<le> - 50)) \<and>
   (truthy (city location_b) \<and> truthy (country location_b) \<and>
    geocode_request axios_get_b location_b
        (buildGeocodingQuery (city location_b) (state_province location_b) (postal_code location_b)
           (country location_b))
      = Resolved (Some (NominatimResult (Num lat_b) (Num lon_b) name # rest)) \<and>
    \<not> (7 \<le> lat_b \<and> lat_b \<le> 83 \<and> - 180 \<le> lon_b \<and> lon_b \<le> - 50) \<longrightarrow>
      geocodeLocation axios_get_b location_b = Inl (Rethrown (OutsideNorthAmerica (Num lat_b) (Num lon_b))))"
proof (intro conjI impI)
  assume "geocodeLocation axios_get location = Inr point"
  then have "validateNorthAmericaBounds (latitude point) (longitude point)"
    by (rule geocodeLocation_Inr)
  then show "\<exists>la lo. latitude point = Num la \<and> longitude point = Num lo \<and>
         7 \<le> la \<and> la \<le> 83 \<and> - 180 \<le> lo \<and> lo \<le> - 50"
    by (simp only: validateNorthAmericaBounds_iff)
next
  assume a: "truthy (city location_b) \<and> truthy (country location_b) \<and>
    geocode_request axios_get_b location_b
        (buildGeocodingQuery (city location_b) (state_province location_b) (postal_code location_b)
           (country location_b))
      = Resolved (Some (NominatimResult (Num lat_b) (Num lon_b) name # rest)) \<and>
    \<not> (7 \<le> lat_b \<and> lat_b \<le> 83 \<and> - 180 \<le> lon_b \<and> lon_b \<le> - 50)"
  then have "\<not> validateNorthAmericaBounds (Num lat_b) (Num lon_b)"
    by (simp add: validateNorthAmericaBounds_iff)
  with a have "geocode_try axios_get_b location_b
        (buildGeocodingQuery (city location_b) (state_province location_b) (postal_code location_b)
           (country location_b)) = Inl (OutsideNorthAmerica (Num lat_b) (Num lon_b))"
    by (simp add: geocode_try_outside)
  with a show "geocodeLocation axios_get_b location_b
      = Inl (Rethrown (OutsideNorthAmerica (Num lat_b) (Num lon_b)))"
    by (simp add: geocodeLocation_def geocode_catch_bounds falsy_iff)
qed

theorem geocoded_point_in_bounds_witness:
  "geocodeLocation geocoder_in_toronto paris_texas =
     Inr \<lparr>latitude = Num 43.65, longitude = Num (- 79.38), accuracy = ''city_state'',
          display_name = ''Toronto, Ontario, Canada''\<rparr> \<and>
   (\<exists>la lo. Num 43.65 = Num la \<and> Num (- 79.38) = Num lo \<and>
         7 \<le> la \<and> la \<le> 83 \<and> - 180 \<le> lo \<and> lo \<le> - 50) \<and>
   truthy (city paris_texas) \<and> truthy (country paris_texas) \<and>
   geocode_request geocoder_in_france paris_texas
     (buildGeocodingQuery (city paris_texas) (state_province paris_texas) (postal_code paris_texas)
        (country paris_texas))
     = Resolved (Some [NominatimResult (Num 48.85) (Num 2.35) ''Paris, France'']) \<and>
   \<not> (7 \<le> (48.85 :: real) \<and> (48.85 :: real) \<le> 83 \<and> - 180 \<le> (2.35 :: real) \<and> (2.35 :: real) \<le> - 50) \<and>
   geocodeLocation geocoder_in_france paris_texas
     = Inl (Rethrown (OutsideNorthAmerica (Num 48.85) (Num 2.35)))"
  using geocoded_point_in_bounds [where axios_get = geocoder_in_toronto and location = paris_texas
      and point = "\<lparr>latitude = Num 43.65, longitude = Num (- 79.38), accuracy = ''city_state'',
          display_name = ''Toronto, Ontario, Canada''\<rparr>"
      and location_b = paris_texas and axios_get_b = geocoder_in_france
      and lat_b = "48.85" and lon_b = "2.35" and name = "''Paris, France''" and rest = "[]"]
    paris_texas_in_toronto paris_texas_request
  by (simp add: truthy_def paris_texas_def)


section \<open>Properties of the distance resolver\<close>

lemma toFixed2_error: "\<bar>toFixed2 x - x\<bar> \<le> 5 / 1000"
proof (cases "x < 0")
  case True
  define n where "n = \<lfloor>(- x) * 100 + 1 / 2\<rfloor>"
  have "of_int n \<le> (- x) * 100 + 1 / 2" "(- x) * 100 + 1 / 2 < of_int n + 1"
    unfolding n_def by linarith+
  moreover from True have "toFixed2 x = - (of_int n / 100)"
    by (simp only: toFixed2_def n_def if_True)
  ultimately show ?thesis by linarith
next
  case False
  define n where "n = \<lfloor>x * 100 + 1 / 2\<rfloor>"
  have "of_int n \<le> x * 100 + 1 / 2" "x * 100 + 1 / 2 < of_int n + 1"
    unfolding n_def by linarith+
  moreover from False have "toFixed2 x = of_int n / 100"
    by (simp only: toFixed2_def n_def if_False)
  ultimately show ?thesis by linarith
qed

lemma driving_miles_close:
  "\<bar>toFixed2 (x * 0.621371) - toFixed2 x * 0.621371\<bar> \<le> 0.008106855"
proof -
  have "\<bar>toFixed2 (x * (621371 / 1000000)) - x * (621371 / 1000000)\<bar> \<le> 5 / 1000"
    by (rule toFixed2_error)
  moreover have "\<bar>toFixed2 x - x\<bar> \<le> 5 / 1000"
    by (rule toFixed2_error)
  ultimately have "\<bar>toFixed2 (x * (621371 / 1000000)) - toFixed2 x * (621371 / 1000000)\<bar>
      \<le> 8106855 / 1000000000"
    by linarith
  then show ?thesis by simp
qed

lemma driving_result:
  assumes "calculateDrivingDistance axios_get a b c d = Inr r"
  obtains m where "r = [(''distance_km'', toFixed2 (m / 1000)),
                         (''distance_miles'', toFixed2 (m / 1000 * 0.621371))]"
  using assms
  by (auto simp: calculateDrivingDistance_def Let_def
      split: axios_result.splits option.splits list.splits)

lemma great_circle_result:
  assumes "calculateGreatCircleDistance query a b c d = Inr r"
  obtains m where "r = [(''distance_km'', m / 1000), (''distance_miles'', m / 1000 * 0.621371)]"
  using assms
  by (auto simp: calculateGreatCircleDistance_def split: query_result.splits list.splits)

lemma driving_timeout:
  "calculateDrivingDistance routing_timeout a b c d =
     Inl (DrivingRequestFailed (AxiosError None (Some ''ECONNABORTED'') ''timeout of 5000ms exceeded''))"
  by (simp add: calculateDrivingDistance_def routing_timeout_def)

lemma great_circle_3358:
  "calculateGreatCircleDistance database_3358_km a b c d =
     Inr [(''distance_km'', 3358), (''distance_miles'', 2086.563818)]"
  by (simp add: calculateGreatCircleDistance_def database_3358_km_def)

lemma fallback_3358:
  "calculateDistance routing_timeout database_3358_km a b c d =
     Inr [(''distance_km'', 3358), (''distance_miles'', 2086.563818)]"
  by (simp add: calculateDistance_def driving_timeout great_circle_3358)


subsection \<open>Miles and kilometres\<close>

text \<open>
  C3, as stated: in every result, miles equals kilometres times 0.621371 exactly, on the
  driving path as on the fallback path. On the driving path both values are rounded to two
  decimals, each from the unrounded length: a route of 1000 m gives 1 km and 0.62 miles,
  and 0.62 is not 0.621371.
\<close>

theorem driving_miles_rounded_separately:
  "calculateDistance routing_one_km database_zero 43.65 (- 79.38) 43.66 (- 79.38)
     = Inr [(''distance_km'', 1), (''distance_miles'', 0.62)] \<and>
   (0.62 :: real) \<noteq> 1 * 0.621371"
  by (simp add: calculateDistance_def calculateDrivingDistance_def routing_one_km_def
      toFixed2_def floor_eq_iff)

text \<open>
  C3, amended: every result has exactly the two values; when the driving request failed and
  the fallback produced the result, miles equals kilometres times 0.621371; on the driving
  path, where each value is rounded to two decimals on its own, miles differs from kilometres
  times 0.621371 by at most 0.008106855 (half a hundredth for each rounding, the second
  scaled by 0.621371).
\<close>

theorem miles_from_kilometers:
  assumes "calculateDistance axios_get query a b c d = Inr r"
  shows "\<exists>km miles. r = [(''distance_km'', km), (''distance_miles'', miles)] \<and>
           \<bar>miles - km * 0.621371\<bar> \<le> 0.008106855 \<and>
           (\<forall>error. calculateDrivingDistance axios_get a b c d = Inl error \<longrightarrow>
              miles = km * 0.621371)"
proof (cases "calculateDrivingDistance axios_get a b c d")
  case (Inr driving)
  with assms have r: "r = driving" by (simp add: calculateDistance_def)
  from Inr obtain m where "driving = [(''distance_km'', toFixed2 (m / 1000)),
                         (''distance_miles'', toFixed2 (m / 1000 * 0.621371))]"
    by (rule driving_result)
  with r Inr show ?thesis
    using driving_miles_close [of "m / 1000"] by simp
next
  case (Inl error)
  with assms have "calculateGreatCircleDistance query a b c d = Inr r"
    by (simp add: calculateDistance_def)
  then obtain m where "r = [(''distance_km'', m / 1000), (''distance_miles'', m / 1000 * 0.621371)]"
    by (rule great_circle_result)
  with Inl show ?thesis
    by (intro exI [of _ "m / 1000"] exI [of _ "m / 1000 * 0.621371"]) simp
qed

theorem miles_from_kilometers_witness:
  "calculateDistance routing_timeout database_3358_km 43.65 (- 79.38) 49.28 (- 123.12)
     = Inr [(''distance_km'', 3358), (''distance_miles'', 2086.563818)] \<and>
   calculateDrivingDistance routing_timeout 43.65 (- 79.38) 49.28 (- 123.12)
     = Inl (DrivingRequestFailed (AxiosError None (Some ''ECONNABORTED'') ''timeout of 5000ms exceeded'')) \<and>
   \<bar>2086.563818 - 3358 * 0.621371 :: real\<bar> \<le> 0.008106855 \<and>
   (2086.563818 :: real) = 3358 * 0.621371"
  using miles_from_kilometers [OF fallback_3358 [of "43.65" "- 79.38" "49.28" "- 123.12"]]
    fallback_3358 [of "43.65" "- 79.38" "49.28" "- 123.12"]
    driving_timeout [of "43.65" "- 79.38" "49.28" "- 123.12"]
  by auto


subsection \<open>The fallback\<close>

text \<open>
  C4, as stated: when the driving request fails and the fallback succeeds, the result has a
  field \<open>method\<close> equal to \<open>great_circle\<close>. After a timeout of the routing provider the call
  succeeds with the fallback's distances, and the object returned has the properties
  \<open>distance_km\<close> and \<open>distance_miles\<close> only: reading \<open>method\<close> gives nothing.
\<close>

theorem fallback_result_has_no_method:
  "calculateDrivingDistance routing_timeout 43.65 (- 79.38) 49.28 (- 123.12)
     = Inl (DrivingRequestFailed (AxiosError None (Some ''ECONNABORTED'') ''timeout of 5000ms exceeded'')) \<and>
   calculateDistance routing_timeout database_3358_km 43.65 (- 79.38) 49.28 (- 123.12)
     = Inr [(''distance_km'', 3358), (''distance_miles'', 2086.563818)] \<and>
   map_of [(''distance_km'', 3358), (''distance_miles'', 2086.563818 :: real)] ''method'' = None"
  by (simp add: fallback_3358 driving_timeout)

text \<open>
  C4, amended: when the driving request fails (it times out, errors or finds no route) and
  the fallback succeeds, \<open>calculateDistance\<close> succeeds and returns the fallback's object,
  whose properties are \<open>distance_km\<close> and \<open>distance_miles\<close>; that object has no property
  \<open>method\<close>.
\<close>

theorem fallback_succeeds:
  assumes "calculateDrivingDistance axios_get a b c d = Inl error"
    and "calculateGreatCircleDistance query a b c d = Inr r"
  shows "calculateDistance axios_get query a b c d = Inr r \<and>
         map fst r = [''distance_km'', ''distance_miles''] \<and> map_of r ''method'' = None"
proof -
  from assms(2) obtain m where "r = [(''distance_km'', m / 1000), (''distance_miles'', m / 1000 * 0.621371)]"
    by (rule great_circle_result)
  with assms show ?thesis by (simp add: calculateDistance_def)
qed

theorem fallback_succeeds_witness:
  "calculateDrivingDistance routing_timeout 43.65 (- 79.38) 49.28 (- 123.12)
     = Inl (DrivingRequestFailed (AxiosError None (Some ''ECONNABORTED'') ''timeout of 5000ms exceeded'')) \<and>
   calculateGreatCircleDistance database_3358_km 43.65 (- 79.38) 49.28 (- 123.12)
     = Inr [(''distance_km'', 3358), (''distance_miles'', 2086.563818)] \<and>
   calculateDistance routing_timeout database_3358_km 43.65 (- 79.38) 49.28 (- 123.12)
     = Inr [(''distance_km'', 3358), (''distance_miles'', 2086.563818)] \<and>
   map fst [(''distance_km'', 3358), (''distance_miles'', 2086.563818 :: real)]
     = [''distance_km'', ''distance_miles''] \<and>
   map_of [(''distance_km'', 3358), (''distance_miles'', 2086.563818 :: real)] ''method'' = None"
  using fallback_succeeds [where axios_get = routing_timeout and query = database_3358_km
      and a = "43.65" and b = "- 79.38" and c = "49.28" and d = "- 123.12",
      OF driving_timeout great_circle_3358]
    driving_timeout [of "43.65" "- 79.38" "49.28" "- 123.12"]
    great_circle_3358 [of "43.65" "- 79.38" "49.28" "- 123.12"]
  by simp

end
